theory Spec2Isabelle
  imports Main "HOL-Library.Char_ord" "HOL-Library.List_Lexorder"
begin

section \<open>Python values\<close>

text \<open>
  The plugin \<^verbatim>\<open>StoreMetadataPlugin\<close> (\<^verbatim>\<open>exit_store_metadata.py\<close>) moves dynamically typed
  data from the workflow into two dictionaries. The values it handles are modelled by one
  datatype: \<^verbatim>\<open>None\<close>, booleans, integers, strings, lists, dictionaries with string keys, and
  exception instances (a failed stage stores the exception it raised as its result).
  \<open>PExc c m\<close> is an instance of the exception class named \<open>c\<close> created with the one
  message \<open>m\<close>. Strings are lists of characters with code points below 256. Floats,
  bytes, tuples and sets do not occur in the model.
\<close>

datatype pyval =
    PNone
  | PBool bool
  | PInt int
  | PStr string
  | PList "pyval list"
  | PDict "(string \<times> pyval) list"
  | PExc string string

text \<open>The exceptions that can leave a function of the plugin.\<close>

datatype error =
    KeyError
  | TypeError
  | ValueError
  | AttributeError
  | OsbsResponseException
  | OtherError string
  | NonStringKey

text \<open>
  \<open>NonStringKey\<close> is not a Python exception: it marks the one place where Python would go
  on with a dictionary key that is not a string (\<open>dict_items\<close> below), which the
  dictionaries of this model cannot hold.
\<close>

type_synonym pydict = "(string \<times> pyval) list"

text \<open>Sequencing of steps that may raise: the first exception ends the computation.\<close>

definition and_then :: "error + 'a \<Rightarrow> ('a \<Rightarrow> error + 'b) \<Rightarrow> error + 'b" where
  "and_then m f = (case m of Inl e \<Rightarrow> Inl e | Inr x \<Rightarrow> f x)"

text \<open>Truth value of an object, as \<^verbatim>\<open>if x:\<close> and \<^verbatim>\<open>x or y\<close> test it.\<close>

fun truthy :: "pyval \<Rightarrow> bool" where
  "truthy PNone = False"
| "truthy (PBool b) = b"
| "truthy (PInt i) = (i \<noteq> 0)"
| "truthy (PStr s) = (s \<noteq> [])"
| "truthy (PList xs) = (xs \<noteq> [])"
| "truthy (PDict d) = (d \<noteq> [])"
| "truthy (PExc c m) = True"

fun is_exception :: "pyval \<Rightarrow> bool" where
  "is_exception (PExc c m) = True"
| "is_exception v = False"

fun is_str :: "pyval \<Rightarrow> bool" where
  "is_str (PStr s) = True"
| "is_str v = False"

subsection \<open>Dictionaries\<close>

text \<open>
  A dictionary is an association list in insertion order. \<open>dict_get\<close> is \<^verbatim>\<open>d.get(k)\<close>
  without a default (\<open>None\<close> of the option type when the key is missing), \<open>dict_get_or\<close>
  is \<^verbatim>\<open>d.get(k, default)\<close>, \<open>dict_set\<close> is \<^verbatim>\<open>d[k] = v\<close> (an existing key keeps its
  place) and \<open>dict_update\<close> is \<^verbatim>\<open>d.update(u)\<close> for a dictionary \<open>u\<close>.
\<close>

definition dict_get :: "(string \<times> 'v) list \<Rightarrow> string \<Rightarrow> 'v option" where
  "dict_get d k = map_of d k"

definition dict_get_or :: "(string \<times> 'v) list \<Rightarrow> string \<Rightarrow> 'v \<Rightarrow> 'v" where
  "dict_get_or d k dflt = (case dict_get d k of None \<Rightarrow> dflt | Some v \<Rightarrow> v)"

definition has_key :: "(string \<times> 'v) list \<Rightarrow> string \<Rightarrow> bool" where
  "has_key d k = (dict_get d k \<noteq> None)"

fun dict_set :: "(string \<times> 'v) list \<Rightarrow> string \<Rightarrow> 'v \<Rightarrow> (string \<times> 'v) list" where
  "dict_set [] k v = [(k, v)]"
| "dict_set ((k', v') # d) k v =
     (if k' = k then (k, v) # d else (k', v') # dict_set d k v)"

fun dict_update :: "(string \<times> 'v) list \<Rightarrow> (string \<times> 'v) list \<Rightarrow> (string \<times> 'v) list" where
  "dict_update d [] = d"
| "dict_update d ((k, v) # u) = dict_update (dict_set d k v) u"

text \<open>\<^verbatim>\<open>d[k]\<close> on a value: \<^verbatim>\<open>KeyError\<close> for a missing key, \<^verbatim>\<open>TypeError\<close> when the value
  cannot be indexed by a string.\<close>

fun subscript :: "pyval \<Rightarrow> string \<Rightarrow> error + pyval" where
  "subscript (PDict d) k = (case dict_get d k of None \<Rightarrow> Inl KeyError | Some v \<Rightarrow> Inr v)"
| "subscript v k = Inl TypeError"

text \<open>Iteration over a value, as \<^verbatim>\<open>for x in v\<close>, \<^verbatim>\<open>list += v\<close> and \<^verbatim>\<open>dict.update(v)\<close> do
  it: a list gives its elements, a string its characters, a dictionary its keys; nothing
  else in the model is iterable.\<close>

fun py_iter :: "pyval \<Rightarrow> error + pyval list" where
  "py_iter (PList xs) = Inr xs"
| "py_iter (PStr s) = Inr (map (\<lambda>c. PStr [c]) s)"
| "py_iter (PDict d) = Inr (map (\<lambda>kv. PStr (fst kv)) d)"
| "py_iter v = Inl TypeError"

text \<open>
  The items \<^verbatim>\<open>dict.update(v)\<close> stores for a value \<open>v\<close>: those of a dictionary, or the
  pairs of an iterable of two-element iterables (\<^verbatim>\<open>ValueError\<close> for another length,
  \<^verbatim>\<open>TypeError\<close> for an element that is not iterable or a key that is not hashable).
\<close>

fun dict_item :: "pyval \<Rightarrow> error + (string \<times> pyval)" where
  "dict_item x =
     (case py_iter x of
        Inl e \<Rightarrow> Inl TypeError
      | Inr [PStr k, v] \<Rightarrow> Inr (k, v)
      | Inr [PList k, v] \<Rightarrow> Inl TypeError
      | Inr [PDict k, v] \<Rightarrow> Inl TypeError
      | Inr [k, v] \<Rightarrow> Inl NonStringKey
      | Inr ys \<Rightarrow> Inl ValueError)"

fun dict_item_list :: "pyval list \<Rightarrow> error + pydict" where
  "dict_item_list [] = Inr []"
| "dict_item_list (x # xs) =
     and_then (dict_item x) (\<lambda>kv. and_then (dict_item_list xs) (\<lambda>kvs. Inr (kv # kvs)))"

fun dict_items :: "pyval \<Rightarrow> error + pydict" where
  "dict_items (PDict d) = Inr d"
| "dict_items v = and_then (py_iter v) dict_item_list"

subsection \<open>Rendering: \<^verbatim>\<open>json.dumps\<close>, \<^verbatim>\<open>str\<close> and \<^verbatim>\<open>os.path.basename\<close>\<close>

definition digit_char :: "nat \<Rightarrow> char" where
  "digit_char n = ''0123456789abcdef'' ! (n mod 16)"

function dec_nat :: "nat \<Rightarrow> string" where
  "dec_nat n = (if n < 10 then [digit_char n] else dec_nat (n div 10) @ [digit_char (n mod 10)])"
  by pat_completeness auto
termination
  by (relation "measure id") auto

definition dec_int :: "int \<Rightarrow> string" where
  "dec_int i = (if i < 0 then CHR ''-'' # dec_nat (nat (- i)) else dec_nat (nat i))"

definition hex2 :: "char \<Rightarrow> string" where
  "hex2 c = [digit_char (of_char c div 16), digit_char (of_char c mod 16)]"

text \<open>
  A string inside \<^verbatim>\<open>json.dumps\<close> output (\<^verbatim>\<open>ensure_ascii\<close> is on by default): the quote
  and the backslash are escaped, the five control characters with a short form get it,
  and every other character outside the range from space to tilde is written
  \<^verbatim>\<open>\u00XX\<close>.
\<close>

definition json_char :: "char \<Rightarrow> string" where
  "json_char c =
     (if c = CHR 0x22 then [CHR 0x5C, CHR 0x22]
      else if c = CHR 0x5C then [CHR 0x5C, CHR 0x5C]
      else if c = CHR 0x08 then [CHR 0x5C, CHR ''b'']
      else if c = CHR 0x0C then [CHR 0x5C, CHR ''f'']
      else if c = CHR 0x0A then [CHR 0x5C, CHR ''n'']
      else if c = CHR 0x0D then [CHR 0x5C, CHR ''r'']
      else if c = CHR 0x09 then [CHR 0x5C, CHR ''t'']
      else if (of_char c :: nat) < 32 \<or> 126 < (of_char c :: nat)
        then [CHR 0x5C, CHR ''u'', CHR ''0'', CHR ''0''] @ hex2 c
      else [c])"

definition json_string :: "string \<Rightarrow> string" where
  "json_string s = [CHR 0x22] @ concat (map json_char s) @ [CHR 0x22]"

fun join :: "string \<Rightarrow> string list \<Rightarrow> string" where
  "join sep [] = []"
| "join sep [x] = x"
| "join sep (x # y # ys) = x @ sep @ join sep (y # ys)"

text \<open>\<^verbatim>\<open>json.dumps\<close> with its default separators. An exception instance is not
  serialisable: \<^verbatim>\<open>json.dumps\<close> raises \<^verbatim>\<open>TypeError\<close> on a value that holds one.\<close>

fun json_ok :: "pyval \<Rightarrow> bool" where
  "json_ok (PExc c m) = False"
| "json_ok (PList xs) = list_all json_ok xs"
| "json_ok (PDict d) = list_all (\<lambda>kv. json_ok (snd kv)) d"
| "json_ok v = True"

fun json_enc :: "pyval \<Rightarrow> string" where
  "json_enc PNone = ''null''"
| "json_enc (PBool b) = (if b then ''true'' else ''false'')"
| "json_enc (PInt i) = dec_int i"
| "json_enc (PStr s) = json_string s"
| "json_enc (PList xs) = ''['' @ join '', '' (map json_enc xs) @ '']''"
| "json_enc (PDict d) =
     ''{'' @ join '', '' (map (\<lambda>kv. json_string (fst kv) @ '': '' @ json_enc (snd kv)) d) @ ''}''"
| "json_enc (PExc c m) = []"

definition json_dumps :: "pyval \<Rightarrow> error + string" where
  "json_dumps v = (if json_ok v then Inr (json_enc v) else Inl TypeError)"

text \<open>
  \<^verbatim>\<open>repr\<close> of a string: single quotes unless the string has a single quote and no
  double quote; the quote in use and the backslash are escaped, tab, newline and return
  have their short forms, and a character that is not printable is written \<^verbatim>\<open>\xXX\<close>.
\<close>

definition repr_quote :: "string \<Rightarrow> char" where
  "repr_quote s = (if CHR 0x27 \<in> set s \<and> CHR 0x22 \<notin> set s then CHR 0x22 else CHR 0x27)"

definition printable :: "char \<Rightarrow> bool" where
  "printable c =
     (let n = (of_char c :: nat) in \<not> (n < 32 \<or> (127 \<le> n \<and> n \<le> 160) \<or> n = 173))"

definition repr_char :: "char \<Rightarrow> char \<Rightarrow> string" where
  "repr_char q c =
     (if c = q \<or> c = CHR 0x5C then [CHR 0x5C, c]
      else if c = CHR 0x09 then [CHR 0x5C, CHR ''t'']
      else if c = CHR 0x0A then [CHR 0x5C, CHR ''n'']
      else if c = CHR 0x0D then [CHR 0x5C, CHR ''r'']
      else if printable c then [c]
      else [CHR 0x5C, CHR ''x''] @ hex2 c)"

definition repr_string :: "string \<Rightarrow> string" where
  "repr_string s = [repr_quote s] @ concat (map (repr_char (repr_quote s)) s) @ [repr_quote s]"

fun py_repr :: "pyval \<Rightarrow> string" where
  "py_repr PNone = ''None''"
| "py_repr (PBool b) = (if b then ''True'' else ''False'')"
| "py_repr (PInt i) = dec_int i"
| "py_repr (PStr s) = repr_string s"
| "py_repr (PList xs) = ''['' @ join '', '' (map py_repr xs) @ '']''"
| "py_repr (PDict d) =
     ''{'' @ join '', '' (map (\<lambda>kv. repr_string (fst kv) @ '': '' @ py_repr (snd kv)) d) @ ''}''"
| "py_repr (PExc c m) = c @ ''('' @ repr_string m @ '')''"

text \<open>\<^verbatim>\<open>str(v)\<close>: a string is itself, an exception is its message, anything else is
  its \<^verbatim>\<open>repr\<close>.\<close>

fun py_str :: "pyval \<Rightarrow> string" where
  "py_str (PStr s) = s"
| "py_str (PExc c m) = m"
| "py_str v = py_repr v"

text \<open>\<^verbatim>\<open>os.path.basename\<close> on POSIX: what follows the last slash; \<^verbatim>\<open>TypeError\<close> for
  a value that is not a path.\<close>

definition basename :: "string \<Rightarrow> string" where
  "basename p = rev (takeWhile (\<lambda>c. c \<noteq> CHR ''/'') (rev p))"

fun os_path_basename :: "pyval \<Rightarrow> error + string" where
  "os_path_basename (PStr p) = Inr (basename p)"
| "os_path_basename v = Inl TypeError"

section \<open>The workflow the plugin reads\<close>

text \<open>
  Modelled from the spec: the image-reference class is not in the source tree. The spec
  gives a reference a registry host, a repository path and a tag, and a rendering with or
  without the registry and the tag. \<open>to_str image with_registry with_tag\<close> stands for
  \<^verbatim>\<open>image.to_str(registry=..., tag=...)\<close>; the general theorems below hold for any rendering.
\<close>

record ImageName =
  registry :: "string option"
  repo :: string
  tag :: "string option"

definition to_str :: "ImageName \<Rightarrow> bool \<Rightarrow> bool \<Rightarrow> string" where
  "to_str img with_registry with_tag =
     (case (if with_registry then registry img else None) of
        Some r \<Rightarrow> r @ ''/''
      | None \<Rightarrow> []) @
     repo img @
     (case (if with_tag then tag img else None) of
        Some t \<Rightarrow> '':'' @ t
      | None \<Rightarrow> [])"

definition opt_str :: "string option \<Rightarrow> pyval" where
  "opt_str x = (case x of None \<Rightarrow> PNone | Some s \<Rightarrow> PStr s)"

text \<open>
  Modelled from the spec: the tag configuration class is not in the source tree. It
  holds the three groups of image references; \<open>images\<close> is all of them, the groups
  one after the other in the order primary, unique, floating.
\<close>

record TagConf =
  primary_images :: "ImageName list"
  unique_images :: "ImageName list"
  floating_images :: "ImageName list"

definition images :: "TagConf \<Rightarrow> ImageName list" where
  "images tc = primary_images tc @ unique_images tc @ floating_images tc"

text \<open>
  Modelled from the spec: the manifest digest class is not in the source tree. It is a
  dictionary from content-type identifier to digest (\<open>entries\<close>) that also knows the
  content-type identifiers there are, in their iteration order (\<open>content_type\<close>). As a
  dictionary it is false in a condition when it has no entry.
\<close>

record ManifestDigest =
  content_type :: "string list"
  entries :: pydict

record DockerfileImages =
  original_base_image :: pyval
  base_from_scratch :: bool

text \<open>\<^verbatim>\<open>workflow.data\<close>: what the earlier stages left behind.\<close>

record workflow_data =
  prebuild_results :: pydict
  postbuild_results :: pydict
  exit_results :: pydict
  tag_conf :: TagConf
  plugins_errors :: pyval
  plugins_timestamps :: pyval
  plugins_durations :: pyval
  labels :: pydict
  annotations :: pydict
  build_result_labels :: pydict
  build_result_annotations :: pydict
  dockerfile_images :: DockerfileImages
  koji_source_manifest :: pyval
  image_id :: pyval
  exported_image_sequence :: "pydict list"

text \<open>The two remote calls of the build-tracking client: each answers with the
  exception it raises, if any.\<close>

record osbs_session =
  update_annotations_on_build :: "pyval \<Rightarrow> pydict \<Rightarrow> error option"
  update_labels_on_build :: "pyval \<Rightarrow> pydict \<Rightarrow> error option"

datatype remote_call =
    UpdateAnnotations pyval pydict
  | UpdateLabels pyval pydict

text \<open>
  \<^verbatim>\<open>workflow\<close>. A call or an attribute read that can raise is a field holding its
  outcome: \<open>source_commit_id\<close> is \<^verbatim>\<open>workflow.source.commit_id\<close>, \<open>base_image_inspect\<close>
  is \<^verbatim>\<open>workflow.imageutil.base_image_inspect()\<close>, \<open>parent_images_to_str\<close> the result
  of the method of that name, \<open>df_path\<close> the attribute, \<open>read_file\<close> is
  \<^verbatim>\<open>open(path).read()\<close>, \<open>get_usage_data\<close> is \<^verbatim>\<open>workflow.fs_watcher.get_usage_data()\<close>,
  \<open>get_manifest_digests\<close> the registry query and \<open>osbs\<close> the session
  \<^verbatim>\<open>get_openshift_session\<close> returns.
\<close>

record workflow =
  data :: workflow_data
  user_params :: pydict
  conf_registry :: pydict
  conf_koji :: pydict
  source_commit_id :: "error + pyval"
  base_image_inspect :: "error + pydict"
  parent_images_to_str :: pydict
  df_path :: "error + string"
  read_file :: "string \<Rightarrow> error + string"
  get_usage_data :: "error + pyval"
  get_manifest_digests :: "ImageName \<Rightarrow> pyval \<Rightarrow> pyval \<Rightarrow> pyval \<Rightarrow> error + ManifestDigest"
  osbs :: osbs_session

text \<open>
  Modelled from the spec: the constants are imported from modules that are not in the
  source tree. Each of the four keys names one stage in a result store, and the last is
  the sentinel of a build from the empty base image.
\<close>

definition PLUGIN_FETCH_SOURCES_KEY :: string where
  "PLUGIN_FETCH_SOURCES_KEY = ''fetch_sources''"

definition PLUGIN_KOJI_UPLOAD_PLUGIN_KEY :: string where
  "PLUGIN_KOJI_UPLOAD_PLUGIN_KEY = ''koji_upload''"

definition PLUGIN_VERIFY_MEDIA_KEY :: string where
  "PLUGIN_VERIFY_MEDIA_KEY = ''verify_media''"

definition PLUGIN_RESOLVE_REMOTE_SOURCE :: string where
  "PLUGIN_RESOLVE_REMOTE_SOURCE = ''resolve_remote_source''"

definition SCRATCH_FROM :: string where
  "SCRATCH_FROM = ''scratch''"

section \<open>The plugin\<close>

subsection \<open>Reading stage results\<close>

definition source_build :: "workflow \<Rightarrow> bool" where
  "source_build w = has_key (prebuild_results (data w)) PLUGIN_FETCH_SOURCES_KEY"

definition get_result :: "pyval \<Rightarrow> pyval" where
  "get_result result = (if is_exception result then PStr [] else result)"

definition get_pre_result :: "workflow \<Rightarrow> string \<Rightarrow> pyval" where
  "get_pre_result w key = get_result (dict_get_or (prebuild_results (data w)) key (PStr []))"

definition get_post_result :: "workflow \<Rightarrow> string \<Rightarrow> pyval" where
  "get_post_result w key = get_result (dict_get_or (postbuild_results (data w)) key (PStr []))"

definition get_exit_result :: "workflow \<Rightarrow> string \<Rightarrow> pyval" where
  "get_exit_result w key = get_result (dict_get_or (exit_results (data w)) key (PStr []))"

definition get_config_map :: "workflow \<Rightarrow> pyval" where
  "get_config_map w =
     (let annotations = get_post_result w PLUGIN_KOJI_UPLOAD_PLUGIN_KEY
      in if \<not> truthy annotations then PDict [] else annotations)"

subsection \<open>Repositories, digests and pull specifications\<close>

definition dict_index :: "(string \<times> 'v) list \<Rightarrow> string \<Rightarrow> error + 'v" where
  "dict_index d k = (case dict_get d k of None \<Rightarrow> Inl KeyError | Some v \<Rightarrow> Inr v)"

text \<open>The loop of \<^verbatim>\<open>get_digests\<close>, with the dictionary built so far.\<close>

fun get_digests_loop ::
  "workflow \<Rightarrow> ImageName list \<Rightarrow> (string \<times> ManifestDigest) list \<Rightarrow>
     error + (string \<times> ManifestDigest) list" where
  "get_digests_loop w [] digests = Inr digests"
| "get_digests_loop w (img # rest) digests =
     and_then (dict_index (conf_registry w) ''uri'') (\<lambda>uri.
     and_then (dict_index (conf_registry w) ''insecure'') (\<lambda>insecure.
     and_then (get_manifest_digests w img uri insecure
                 (dict_get_or (conf_registry w) ''secret'' PNone)) (\<lambda>image_digests.
     get_digests_loop w rest
       (if entries image_digests \<noteq> []
        then dict_set digests (to_str img True True) image_digests
        else digests))))"

definition get_digests :: "workflow \<Rightarrow> error + (string \<times> ManifestDigest) list" where
  "get_digests w = get_digests_loop w (images (tag_conf (data w))) []"

text \<open>One loop of \<^verbatim>\<open>get_repositories\<close>: each image's rendering is appended.\<close>

fun repositories_loop :: "ImageName list \<Rightarrow> pyval list \<Rightarrow> pyval list" where
  "repositories_loop [] repositories = repositories"
| "repositories_loop (img # rest) repositories =
     repositories_loop rest (repositories @ [PStr (to_str img True True)])"

definition get_repositories :: "workflow \<Rightarrow> pyval" where
  "get_repositories w =
     (let primary_repositories = repositories_loop (primary_images (tag_conf (data w))) [];
          unique_repositories = repositories_loop (unique_images (tag_conf (data w))) [];
          floating_repositories = repositories_loop (floating_images (tag_conf (data w))) []
      in PDict [(''primary'', PList primary_repositories),
                (''unique'', PList unique_repositories),
                (''floating'', PList floating_repositories)])"

text \<open>The record \<^verbatim>\<open>get_pullspecs\<close> appends, its inner loop over the content types
  of one image's digest, and its outer loop over the images.\<close>

definition pullspec :: "ImageName \<Rightarrow> pyval \<Rightarrow> string \<Rightarrow> pyval" where
  "pullspec img d digest_version =
     PDict [(''registry'', opt_str (registry img)),
            (''repository'', PStr (to_str img False False)),
            (''tag'', opt_str (tag img)),
            (''digest'', d),
            (''version'', PStr digest_version)]"

fun pullspecs_versions ::
  "ImageName \<Rightarrow> ManifestDigest \<Rightarrow> string list \<Rightarrow> pyval list \<Rightarrow> pyval list" where
  "pullspecs_versions img digest [] pullspecs = pullspecs"
| "pullspecs_versions img digest (digest_version # rest) pullspecs =
     (case dict_get (entries digest) digest_version of
        None \<Rightarrow> pullspecs_versions img digest rest pullspecs
      | Some d \<Rightarrow>
          pullspecs_versions img digest rest (pullspecs @ [pullspec img d digest_version]))"

fun pullspecs_images ::
  "ImageName list \<Rightarrow> (string \<times> ManifestDigest) list \<Rightarrow> pyval list \<Rightarrow> pyval list" where
  "pullspecs_images [] digests pullspecs = pullspecs"
| "pullspecs_images (img # rest) digests pullspecs =
     (case dict_get digests (to_str img True True) of
        None \<Rightarrow> pullspecs_images rest digests pullspecs
      | Some digest \<Rightarrow>
          pullspecs_images rest digests
            (pullspecs_versions img digest (content_type digest) pullspecs))"

definition get_pullspecs :: "workflow \<Rightarrow> (string \<times> ManifestDigest) list \<Rightarrow> pyval list" where
  "get_pullspecs w digests = pullspecs_images (images (tag_conf (data w))) digests []"

definition get_plugin_metadata :: "workflow \<Rightarrow> pyval" where
  "get_plugin_metadata w =
     PDict [(''errors'', plugins_errors (data w)),
            (''timestamps'', plugins_timestamps (data w)),
            (''durations'', plugins_durations (data w))]"

definition get_filesystem_metadata :: "workflow \<Rightarrow> pyval" where
  "get_filesystem_metadata w =
     (case get_usage_data w of Inl e \<Rightarrow> PDict [] | Inr usage \<Rightarrow> usage)"

subsection \<open>Labels\<close>

definition update_labels :: "pydict \<Rightarrow> pydict \<Rightarrow> pydict" where
  "update_labels labels0 updates =
     (if updates \<noteq> []
      then dict_update labels0 (map (\<lambda>kv. (fst kv, PStr (py_str (snd kv)))) updates)
      else labels0)"

definition make_labels :: "workflow \<Rightarrow> pydict" where
  "make_labels w =
     (let labels1 = update_labels [] (labels (data w));
          labels2 = update_labels labels1 (build_result_labels (data w))
      in case dict_get labels2 ''sources_for_koji_build_id'' of
           None \<Rightarrow> labels2
         | Some v \<Rightarrow> dict_set labels2 ''sources_for_koji_build_id'' (PStr (py_str v)))"

subsection \<open>Annotations\<close>

definition set_koji_task_annotations_whitelist :: "workflow \<Rightarrow> pydict \<Rightarrow> error + pydict" where
  "set_koji_task_annotations_whitelist w annotations0 =
     (let whitelist = dict_get_or (conf_koji w) ''task_annotations_whitelist'' PNone
      in if truthy whitelist
         then and_then (json_dumps whitelist) (\<lambda>s.
                Inr (dict_set annotations0 ''koji_task_annotations_whitelist'' (PStr s)))
         else Inr annotations0)"

text \<open>The dictionary comprehension of \<^verbatim>\<open>_update_annotations\<close>: every value is
  encoded, and the first value that cannot be encoded raises.\<close>

fun dumps_values :: "pydict \<Rightarrow> error + pydict" where
  "dumps_values [] = Inr []"
| "dumps_values ((key, v) # rest) =
     and_then (json_dumps v) (\<lambda>s.
     and_then (dumps_values rest) (\<lambda>rest'. Inr ((key, PStr s) # rest')))"

definition update_annotations :: "pydict \<Rightarrow> pydict \<Rightarrow> error + pydict" where
  "update_annotations annotations0 updates =
     (if updates \<noteq> []
      then and_then (dumps_values updates) (\<lambda>updates'. Inr (dict_update annotations0 updates'))
      else Inr annotations0)"

definition apply_build_result_annotations :: "workflow \<Rightarrow> pydict \<Rightarrow> error + pydict" where
  "apply_build_result_annotations w annotations0 =
     update_annotations annotations0 (build_result_annotations (data w))"

definition apply_plugin_annotations :: "workflow \<Rightarrow> pydict \<Rightarrow> error + pydict" where
  "apply_plugin_annotations w annotations0 =
     update_annotations annotations0 (annotations (data w))"

text \<open>The list comprehension of \<^verbatim>\<open>apply_remote_source_annotations\<close>.\<close>

fun remote_sources_loop :: "pyval list \<Rightarrow> error + pyval list" where
  "remote_sources_loop [] = Inr []"
| "remote_sources_loop (remote_source # rest) =
     and_then (subscript remote_source ''name'') (\<lambda>name.
     and_then (subscript remote_source ''url'') (\<lambda>url.
     and_then (remote_sources_loop rest) (\<lambda>rest'.
     Inr (PDict [(''name'', name), (''url'', url)] # rest'))))"

definition apply_remote_source_annotations :: "workflow \<Rightarrow> pydict \<Rightarrow> error + pydict" where
  "apply_remote_source_annotations w annotations0 =
     (let remote_sources = get_pre_result w PLUGIN_RESOLVE_REMOTE_SOURCE
      in case and_then (py_iter remote_sources) remote_sources_loop of
           Inl e \<Rightarrow> if e = TypeError \<or> e = KeyError then Inr annotations0 else Inl e
         | Inr remote_sources_annotations \<Rightarrow>
             if remote_sources_annotations = [] then Inr annotations0
             else and_then (json_dumps (PList remote_sources_annotations)) (\<lambda>s.
                    Inr (dict_set annotations0 ''remote_sources'' (PStr s))))"

subsection \<open>\<^verbatim>\<open>set\<close> and \<^verbatim>\<open>sorted\<close>\<close>

text \<open>
  \<^verbatim>\<open>set(xs)\<close> needs hashable elements (lists and dictionaries are not) and keeps the first
  of the elements that are equal; an integer and a boolean are equal when their numbers
  are. \<^verbatim>\<open>sorted\<close> of the elements of a set compares strings with strings and numbers
  with numbers, and raises \<^verbatim>\<open>TypeError\<close> as soon as two elements of another kind, or of
  different kinds, have to be compared.
\<close>

fun hashable :: "pyval \<Rightarrow> bool" where
  "hashable (PList xs) = False"
| "hashable (PDict d) = False"
| "hashable v = True"

fun is_number :: "pyval \<Rightarrow> bool" where
  "is_number (PInt i) = True"
| "is_number (PBool b) = True"
| "is_number v = False"

fun number_of :: "pyval \<Rightarrow> int" where
  "number_of (PInt i) = i"
| "number_of (PBool b) = (if b then 1 else 0)"
| "number_of v = 0"

fun str_of :: "pyval \<Rightarrow> string" where
  "str_of (PStr s) = s"
| "str_of v = []"

definition py_eq :: "pyval \<Rightarrow> pyval \<Rightarrow> bool" where
  "py_eq a b = (if is_number a \<and> is_number b then number_of a = number_of b else a = b)"

fun py_set_loop :: "pyval list \<Rightarrow> pyval list \<Rightarrow> pyval list" where
  "py_set_loop [] seen = seen"
| "py_set_loop (x # xs) seen =
     py_set_loop xs (if list_ex (py_eq x) seen then seen else seen @ [x])"

definition py_set :: "pyval list \<Rightarrow> error + pyval list" where
  "py_set xs = (if list_all hashable xs then Inr (py_set_loop xs []) else Inl TypeError)"

definition py_sorted :: "pyval list \<Rightarrow> error + pyval list" where
  "py_sorted xs =
     (if length xs \<le> 1 then Inr xs
      else if list_all is_str xs then Inr (map PStr (sort (map str_of xs)))
      else if list_all is_number xs then Inr (sort_key number_of xs)
      else Inl TypeError)"

subsection \<open>\<^verbatim>\<open>run\<close>\<close>

text \<open>What a full build reads before the annotations are built (lines 205 to 231).\<close>

record build_fields =
  commit_id :: pyval
  base_image_id :: pyval
  base_image_name :: pyval
  parent_images_strings :: pydict
  dockerfile_contents :: string

text \<open>\<^verbatim>\<open>try: ... except e: x = dflt\<close>\<close>

definition catch :: "error \<Rightarrow> 'a \<Rightarrow> error + 'a \<Rightarrow> error + 'a" where
  "catch e dflt m =
     (case m of Inl e' \<Rightarrow> if e' = e then Inr dflt else Inl e' | Inr x \<Rightarrow> Inr x)"

definition run_full_build_fields :: "workflow \<Rightarrow> error + build_fields" where
  "run_full_build_fields w =
     and_then (catch AttributeError (PStr []) (source_commit_id w)) (\<lambda>commit.
     and_then
       (let base_image = original_base_image (dockerfile_images (data w))
        in if base_image \<noteq> PNone \<and> \<not> base_from_scratch (dockerfile_images (data w))
           then and_then
                  (catch KeyError (PStr [])
                     (and_then (base_image_inspect w) (\<lambda>inspect.
                        Inr (dict_get_or inspect ''Id'' (PStr [])))))
                  (\<lambda>ident. Inr (base_image, ident))
           else Inr (PStr [], PStr [])) (\<lambda>base.
     and_then (catch AttributeError [] (and_then (df_path w) (read_file w))) (\<lambda>contents.
     Inr \<lparr>commit_id = commit,
          base_image_id = snd base,
          base_image_name = fst base,
          parent_images_strings =
            (if base_from_scratch (dockerfile_images (data w))
             then dict_set (parent_images_to_str w) SCRATCH_FROM (PStr SCRATCH_FROM)
             else parent_images_to_str w),
          dockerfile_contents = contents\<rparr>)))"

text \<open>The dictionary display of lines 233 to 238.\<close>

definition run_initial_annotations :: "workflow \<Rightarrow> error + pydict" where
  "run_initial_annotations w =
     and_then (json_dumps (get_repositories w)) (\<lambda>repositories.
     and_then (get_digests w) (\<lambda>digests.
     and_then (json_dumps (PList (get_pullspecs w digests))) (\<lambda>pullspecs.
     and_then (json_dumps (get_plugin_metadata w)) (\<lambda>metadata.
     and_then (json_dumps (get_filesystem_metadata w)) (\<lambda>filesystem.
     Inr [(''repositories'', PStr repositories),
          (''digests'', PStr pullspecs),
          (''plugins-metadata'', PStr metadata),
          (''filesystem'', PStr filesystem)])))))"

text \<open>The two branches of lines 240 to 251.\<close>

definition run_source_annotations :: "workflow \<Rightarrow> pydict \<Rightarrow> error + pydict" where
  "run_source_annotations w annotations0 =
     (let annotations1 = dict_set annotations0 ''image-id'' (PStr [])
      in if truthy (koji_source_manifest (data w))
         then and_then (subscript (koji_source_manifest (data w)) ''config'') (\<lambda>config.
              and_then (subscript config ''digest'') (\<lambda>digest.
              Inr (dict_set annotations1 ''image-id'' digest)))
         else Inr annotations1)"

definition run_full_annotations :: "workflow \<Rightarrow> build_fields \<Rightarrow> pydict \<Rightarrow> error + pydict" where
  "run_full_annotations w fb annotations0 =
     (let annotations1 = dict_set annotations0 ''dockerfile'' (PStr (dockerfile_contents fb));
          annotations2 = dict_set annotations1 ''commit_id'' (commit_id fb);
          annotations3 = dict_set annotations2 ''base-image-id'' (base_image_id fb);
          annotations4 = dict_set annotations3 ''base-image-name'' (base_image_name fb);
          annotations5 = dict_set annotations4 ''image-id''
            (if truthy (image_id (data w)) then image_id (data w) else PStr [])
      in and_then (json_dumps (PDict (parent_images_strings fb))) (\<lambda>s.
           Inr (dict_set annotations5 ''parent_images'' (PStr s))))"

text \<open>Lines 253 to 263.\<close>

definition run_media_types :: "workflow \<Rightarrow> pydict \<Rightarrow> error + pydict" where
  "run_media_types w annotations0 =
     (let media_results = dict_get_or (exit_results (data w)) PLUGIN_VERIFY_MEDIA_KEY PNone;
          media_results = (if is_exception media_results then PNone else media_results)
      in and_then (if truthy media_results then py_iter media_results else Inr []) (\<lambda>media_types.
         if media_types \<noteq> []
         then and_then (py_set media_types) (\<lambda>distinct_types.
              and_then (py_sorted distinct_types) (\<lambda>sorted_types.
              and_then (json_dumps (PList sorted_types)) (\<lambda>s.
              Inr (dict_set annotations0 ''media-types'' (PStr s)))))
         else Inr annotations0))"

text \<open>Lines 265 to 280.\<close>

definition run_tar_metadata :: "workflow \<Rightarrow> pydict \<Rightarrow> error + pydict" where
  "run_tar_metadata w annotations0 =
     (let info = (if exported_image_sequence (data w) \<noteq> []
                  then last (exported_image_sequence (data w)) else []);
          tar_path = dict_get_or info ''path'' PNone;
          tar_size = dict_get_or info ''size'' PNone;
          tar_md5sum = dict_get_or info ''md5sum'' PNone;
          tar_sha256sum = dict_get_or info ''sha256sum'' PNone
      in if tar_size \<noteq> PNone \<and> tar_md5sum \<noteq> PNone \<and> tar_sha256sum \<noteq> PNone \<and>
            tar_path \<noteq> PNone
         then and_then (os_path_basename tar_path) (\<lambda>filename.
              and_then (json_dumps (PDict [(''size'', tar_size),
                                           (''md5sum'', tar_md5sum),
                                           (''sha256sum'', tar_sha256sum),
                                           (''filename'', PStr filename)])) (\<lambda>s.
              Inr (dict_set annotations0 ''tar_metadata'' (PStr s))))
         else Inr annotations0)"

text \<open>The annotations \<^verbatim>\<open>run\<close> builds itself, from line 205 to line 282.\<close>

definition run_built_annotations :: "workflow \<Rightarrow> error + pydict" where
  "run_built_annotations w =
     and_then (if source_build w then Inr None
               else and_then (run_full_build_fields w) (\<lambda>fb. Inr (Some fb))) (\<lambda>fb.
     and_then (run_initial_annotations w) (\<lambda>annotations0.
     and_then (case fb of
                 None \<Rightarrow> run_source_annotations w annotations0
               | Some full \<Rightarrow> run_full_annotations w full annotations0) (\<lambda>annotations1.
     and_then (run_media_types w annotations1) (\<lambda>annotations2.
     and_then (run_tar_metadata w annotations2) (\<lambda>annotations3.
     apply_remote_source_annotations w annotations3)))))"

text \<open>The annotations merged in from elsewhere, lines 284 to 288: the configuration
  map as it is, the plugins' annotations, those of the build result, and the allow-list.\<close>

definition run_merged_annotations :: "workflow \<Rightarrow> pydict \<Rightarrow> error + pydict" where
  "run_merged_annotations w annotations4 =
     and_then (dict_items (get_config_map w)) (\<lambda>config_map.
     and_then (apply_plugin_annotations w (dict_update annotations4 config_map)) (\<lambda>annotations5.
     and_then (apply_build_result_annotations w annotations5) (\<lambda>annotations6.
     set_koji_task_annotations_whitelist w annotations6)))"

definition run_annotations :: "workflow \<Rightarrow> error + pydict" where
  "run_annotations w = and_then (run_built_annotations w) (run_merged_annotations w)"

record run_result =
  result_annotations :: pydict
  result_labels :: pydict

text \<open>\<^verbatim>\<open>run\<close>: the remote calls made, in order, and either the exception raised or
  the dictionary returned.\<close>

definition run :: "workflow \<Rightarrow> remote_call list \<times> (error + run_result)" where
  "run w =
     (case dict_index (user_params w) ''pipeline_run_name'' of
        Inl e \<Rightarrow> ([], Inl e)
      | Inr pipeline_run_name \<Rightarrow>
          (case run_annotations w of
             Inl e \<Rightarrow> ([], Inl e)
           | Inr annotations1 \<Rightarrow>
               (case update_annotations_on_build (osbs w) pipeline_run_name annotations1 of
                  Some e \<Rightarrow> ([UpdateAnnotations pipeline_run_name annotations1], Inl e)
                | None \<Rightarrow>
                    (let labels1 = make_labels w;
                         result = \<lparr>result_annotations = annotations1, result_labels = labels1\<rparr>
                     in if labels1 \<noteq> []
                        then (case update_labels_on_build (osbs w) pipeline_run_name labels1 of
                                Some e \<Rightarrow>
                                  ([UpdateAnnotations pipeline_run_name annotations1,
                                    UpdateLabels pipeline_run_name labels1], Inl e)
                              | None \<Rightarrow>
                                  ([UpdateAnnotations pipeline_run_name annotations1,
                                    UpdateLabels pipeline_run_name labels1], Inr result))
                        else ([UpdateAnnotations pipeline_run_name annotations1], Inr result)))))"

section \<open>What the specification speaks of\<close>

text \<open>\<^verbatim>\<open>run\<close> returns its dictionary; the annotations and the labels it returns, which are
  those it has sent, and the annotation it returns under one key.\<close>

definition run_succeeds :: "workflow \<Rightarrow> bool" where
  "run_succeeds w = (case snd (run w) of Inl e \<Rightarrow> False | Inr r \<Rightarrow> True)"

definition published_annotations :: "workflow \<Rightarrow> pydict" where
  "published_annotations w = (case snd (run w) of Inl e \<Rightarrow> [] | Inr r \<Rightarrow> result_annotations r)"

definition published_labels :: "workflow \<Rightarrow> pydict" where
  "published_labels w = (case snd (run w) of Inl e \<Rightarrow> [] | Inr r \<Rightarrow> result_labels r)"

definition published_annotation :: "workflow \<Rightarrow> string \<Rightarrow> pyval option" where
  "published_annotation w k = dict_get (published_annotations w) k"

text \<open>Every value of a dictionary is a string.\<close>

definition all_str :: "pydict \<Rightarrow> bool" where
  "all_str d = list_all (\<lambda>kv. is_str (snd kv)) d"

text \<open>What \<^verbatim>\<open>_update_annotations\<close> merges in for the updates \<open>u\<close>: every value encoded.\<close>

definition encoded :: "pydict \<Rightarrow> pydict" where
  "encoded u = map (\<lambda>kv. (fst kv, PStr (json_enc (snd kv)))) u"

text \<open>The items of the configuration map, when \<^verbatim>\<open>annotations.update\<close> accepts it.\<close>

definition config_map_items :: "workflow \<Rightarrow> pydict" where
  "config_map_items w = (case dict_items (get_config_map w) of Inl e \<Rightarrow> [] | Inr items \<Rightarrow> items)"

text \<open>A key that one of the three merged sources supplies: the configuration map, the
  plugins' annotations or the annotations of the build result.\<close>

definition merged_key :: "workflow \<Rightarrow> string \<Rightarrow> bool" where
  "merged_key w k =
     (has_key (config_map_items w) k \<or> has_key (annotations (data w)) k \<or>
      has_key (build_result_annotations (data w)) k)"

text \<open>The allow-list is configured: \<^verbatim>\<open>set_koji_task_annotations_whitelist\<close> writes its key.\<close>

definition whitelist_configured :: "workflow \<Rightarrow> bool" where
  "whitelist_configured w = truthy (dict_get_or (conf_koji w) ''task_annotations_whitelist'' PNone)"

text \<open>The most recently exported artifact has all of path, size, md5 checksum and
  sha256 checksum; a field whose value is \<^verbatim>\<open>None\<close> counts as missing.\<close>

definition tar_fields_present :: "workflow \<Rightarrow> bool" where
  "tar_fields_present w =
     (exported_image_sequence (data w) \<noteq> [] \<and>
      list_all (\<lambda>field. dict_get_or (last (exported_image_sequence (data w))) field PNone \<noteq> PNone)
        [''path'', ''size'', ''md5sum'', ''sha256sum''])"

text \<open>The values \<^verbatim>\<open>run\<close> stores in the annotations as they come, without encoding them,
  are strings: the items of the configuration map and, for a source build, the config
  digest of the source manifest; for a full build, the commit id, the base image and its
  inspected id, and the image id.\<close>

definition stored_values_are_strings :: "workflow \<Rightarrow> bool" where
  "stored_values_are_strings w =
     (all_str (config_map_items w) \<and>
      (if source_build w
       then (case and_then (subscript (koji_source_manifest (data w)) ''config'')
                    (\<lambda>config. subscript config ''digest'') of
               Inl e \<Rightarrow> True
             | Inr digest \<Rightarrow> is_str digest)
       else (case source_commit_id w of Inl e \<Rightarrow> True | Inr commit \<Rightarrow> is_str commit) \<and>
            (original_base_image (dockerfile_images (data w)) = PNone \<or>
             base_from_scratch (dockerfile_images (data w)) \<or>
             is_str (original_base_image (dockerfile_images (data w))) \<and>
             (case base_image_inspect w of
                Inl e \<Rightarrow> True
              | Inr inspect \<Rightarrow> is_str (dict_get_or inspect ''Id'' (PStr [])))) \<and>
            (truthy (image_id (data w)) \<longrightarrow> is_str (image_id (data w)))))"

text \<open>
  The pull specifications as the specification words them: one record for each image
  that is in the digest map and each content type whose digest value is truthy, in the
  order of the images and then of the content types.
\<close>

definition buildPullSpecs_spec ::
  "ImageName list \<Rightarrow> (string \<times> ManifestDigest) list \<Rightarrow> pyval list" where
  "buildPullSpecs_spec imgs digestMap =
     concat (map (\<lambda>img.
       case dict_get digestMap (to_str img True True) of
         None \<Rightarrow> []
       | Some digest \<Rightarrow>
           map (\<lambda>v. pullspec img (dict_get_or (entries digest) v PNone) v)
             (filter (\<lambda>v. truthy (dict_get_or (entries digest) v PNone)) (content_type digest)))
       imgs)"

section \<open>A concrete workflow\<close>

text \<open>A full build with one primary image \<^verbatim>\<open>registry/repo:v1\<close> whose digest the registry
  knows for the content type \<^verbatim>\<open>v2\<close>, one exported archive, and media types reported by
  the verification stage.\<close>

definition example_image :: ImageName where
  "example_image = \<lparr>registry = Some ''registry'', repo = ''repo'', tag = Some ''v1''\<rparr>"

definition example_digest :: ManifestDigest where
  "example_digest =
     \<lparr>content_type = [''v1'', ''v2''], entries = [(''v2'', PStr ''sha256:deadbeef'')]\<rparr>"

definition example_data :: workflow_data where
  "example_data =
     \<lparr>prebuild_results = [],
      postbuild_results = [],
      exit_results = [(''verify_media'', PList [PStr ''b'', PStr ''a'', PStr ''a''])],
      tag_conf = \<lparr>primary_images = [example_image], unique_images = [], floating_images = []\<rparr>,
      plugins_errors = PDict [],
      plugins_timestamps = PDict [],
      plugins_durations = PDict [],
      labels = [(''koji-task-id'', PInt 12)],
      annotations = [],
      build_result_labels = [],
      build_result_annotations = [],
      dockerfile_images = \<lparr>original_base_image = PStr ''fedora:36'', base_from_scratch = False\<rparr>,
      koji_source_manifest = PNone,
      image_id = PStr ''sha256:1'',
      exported_image_sequence =
        [[(''path'', PStr ''/var/tmp/image.tar''), (''size'', PInt 120),
          (''md5sum'', PStr ''m5''), (''sha256sum'', PStr ''s256'')]]\<rparr>"

definition example_workflow :: workflow where
  "example_workflow =
     \<lparr>data = example_data,
      user_params = [(''pipeline_run_name'', PStr ''run-1'')],
      conf_registry = [(''uri'', PStr ''registry''), (''insecure'', PBool False)],
      conf_koji = [],
      source_commit_id = Inr (PStr ''abc''),
      base_image_inspect = Inr [(''Id'', PStr ''sha256:0'')],
      parent_images_to_str = [],
      df_path = Inr ''/src/Dockerfile'',
      read_file = (\<lambda>path. Inr ''FROM fedora:36''),
      get_usage_data = Inl (OtherError ''no stats''),
      get_manifest_digests = (\<lambda>img uri insecure secret. Inr example_digest),
      osbs = \<lparr>update_annotations_on_build = (\<lambda>name d. None),
              update_labels_on_build = (\<lambda>name d. None)\<rparr>\<rparr>"

text \<open>Variants of the example: the three merged sources share the key \<^verbatim>\<open>k\<close>; an allow-list
  is configured and two sources use its key; the configuration map holds a number; a
  plugin annotation is named \<^verbatim>\<open>dockerfile\<close>; there are no labels; the remote update of the
  annotations fails.\<close>

definition example_merged :: workflow where
  "example_merged =
     example_workflow\<lparr>data := example_data
       \<lparr>postbuild_results := [(''koji_upload'', PDict [(''k'', PStr ''config''), (''c'', PStr ''config'')])],
        annotations := [(''k'', PStr ''plugin''), (''p'', PInt 1)],
        build_result_annotations := [(''k'', PStr ''result'')]\<rparr>\<rparr>"

definition example_allow_list :: workflow where
  "example_allow_list =
     example_workflow\<lparr>conf_koji := [(''task_annotations_whitelist'', PList [PStr ''a''])],
       data := example_data
         \<lparr>annotations := [(''koji_task_annotations_whitelist'', PInt 2)],
          build_result_annotations := [(''koji_task_annotations_whitelist'', PInt 1)]\<rparr>\<rparr>"

definition example_config_map :: workflow where
  "example_config_map =
     example_workflow\<lparr>data := example_data
       \<lparr>postbuild_results := [(''koji_upload'', PDict [(''k'', PInt 1)])]\<rparr>\<rparr>"

definition example_dockerfile_annotation :: workflow where
  "example_dockerfile_annotation =
     example_workflow\<lparr>data := example_data\<lparr>annotations := [(''dockerfile'', PStr ''y'')]\<rparr>\<rparr>"

definition example_no_labels :: workflow where
  "example_no_labels = example_workflow\<lparr>data := example_data\<lparr>labels := []\<rparr>\<rparr>"

definition example_remote_failure :: workflow where
  "example_remote_failure =
     example_workflow\<lparr>osbs :=
       \<lparr>update_annotations_on_build = (\<lambda>name d. Some OsbsResponseException),
        update_labels_on_build = (\<lambda>name d. None)\<rparr>\<rparr>"

section \<open>Basic facts\<close>

lemma and_then_Inr [simp]: "and_then (Inr x) f = f x"
  by (simp add: and_then_def)

lemma and_then_Inl [simp]: "and_then (Inl e) f = Inl e"
  by (simp add: and_then_def)

lemma and_then_eq_Inr: "and_then m f = Inr y \<longleftrightarrow> (\<exists>x. m = Inr x \<and> f x = Inr y)"
  by (cases m) simp_all

subsection \<open>Dictionaries\<close>

lemma has_key_Nil [simp]: "\<not> has_key [] k"
  by (simp add: has_key_def dict_get_def)

lemma has_key_Cons: "has_key ((k', v) # u) k \<longleftrightarrow> k' = k \<or> has_key u k"
  by (auto simp: has_key_def dict_get_def)

lemma has_key_iff: "has_key d k \<longleftrightarrow> k \<in> fst ` set d"
  by (simp add: has_key_def dict_get_def map_of_eq_None_iff)

lemma dict_get_set: "dict_get (dict_set d k v) k' = (if k' = k then Some v else dict_get d k')"
  by (induction d k v rule: dict_set.induct) (auto simp: dict_get_def)

lemma dict_set_set: "dict_set (dict_set d k v) k v' = dict_set d k v'"
  by (induction d k v rule: dict_set.induct) auto

lemma dict_get_update_other:
  "\<not> has_key u k \<Longrightarrow> dict_get (dict_update d u) k = dict_get d k"
  by (induction d u rule: dict_update.induct) (auto simp: dict_get_set has_key_Cons)

lemma dict_get_update_in:
  "has_key u k \<Longrightarrow> \<exists>v. (k, v) \<in> set u \<and> dict_get (dict_update d u) k = Some v"
proof (induction d u rule: dict_update.induct)
  case (1 d)
  then show ?case by simp
next
  case (2 d k' v' u)
  show ?case
  proof (cases "has_key u k")
    case True
    with 2 show ?thesis by auto
  next
    case False
    with 2 have "k' = k" by (auto simp: has_key_Cons)
    with False show ?thesis by (auto simp: dict_get_update_other dict_get_set)
  qed
qed

lemma all_str_set: "all_str d \<Longrightarrow> is_str v \<Longrightarrow> all_str (dict_set d k v)"
  by (induction d k v rule: dict_set.induct) (auto simp: all_str_def)

lemma all_str_update: "all_str d \<Longrightarrow> all_str u \<Longrightarrow> all_str (dict_update d u)"
proof (induction d u rule: dict_update.induct)
  case (1 d)
  then show ?case by simp
next
  case (2 d k v u)
  from 2(2,3) have "all_str (dict_set d k v)" and "all_str u"
    by (auto simp: all_str_def intro: all_str_set [unfolded all_str_def])
  with 2(1) show ?case by simp
qed

section \<open>The result accessors\<close>

text \<open>
  C4. For each of the three result stores and every key, the accessor returns the stored
  payload when the key holds one, and the empty string when the key is absent or holds an
  exception. The accessors are total functions into values: they have no exception to
  raise, and a caller cannot tell an absent stage from a failed one.
\<close>

theorem get_result_absent_or_failed:
  "get_pre_result w key =
     (case dict_get (prebuild_results (data w)) key of
        None \<Rightarrow> PStr []
      | Some v \<Rightarrow> if is_exception v then PStr [] else v) \<and>
   get_post_result w key =
     (case dict_get (postbuild_results (data w)) key of
        None \<Rightarrow> PStr []
      | Some v \<Rightarrow> if is_exception v then PStr [] else v) \<and>
   get_exit_result w key =
     (case dict_get (exit_results (data w)) key of
        None \<Rightarrow> PStr []
      | Some v \<Rightarrow> if is_exception v then PStr [] else v)"
  by (simp add: get_pre_result_def get_post_result_def get_exit_result_def get_result_def
      dict_get_or_def split: option.split)

theorem get_result_absent_or_failed_witness:
  "get_exit_result example_workflow ''verify_media'' = PList [PStr ''b'', PStr ''a'', PStr ''a''] \<and>
   get_exit_result example_workflow ''other'' = PStr [] \<and>
   get_pre_result (example_workflow\<lparr>data := example_data\<lparr>prebuild_results :=
       [(''other'', PExc ''RuntimeError'' ''failed'')]\<rparr>\<rparr>) ''other'' = PStr []"
  using get_result_absent_or_failed [of example_workflow "''verify_media''"]
    get_result_absent_or_failed [of example_workflow "''other''"]
    get_result_absent_or_failed [of "example_workflow\<lparr>data := example_data\<lparr>prebuild_results :=
       [(''other'', PExc ''RuntimeError'' ''failed'')]\<rparr>\<rparr>" "''other''"]
  by (simp add: example_workflow_def example_data_def dict_get_def)

section \<open>The run identity\<close>

text \<open>
  C2. When the user parameters have no \<^verbatim>\<open>pipeline_run_name\<close>, \<^verbatim>\<open>run\<close> raises
  \<^verbatim>\<open>KeyError\<close> and has made no remote call: neither the annotations nor the labels were
  sent.
\<close>

theorem run_without_run_name:
  "dict_get (user_params w) ''pipeline_run_name'' = None \<Longrightarrow> run w = ([], Inl KeyError)"
  by (simp add: run_def dict_index_def)

theorem run_without_run_name_witness:
  "dict_get (user_params (example_workflow\<lparr>user_params := [(''namespace'', PStr ''ns'')]\<rparr>))
     ''pipeline_run_name'' = None \<and>
   run (example_workflow\<lparr>user_params := [(''namespace'', PStr ''ns'')]\<rparr>) = ([], Inl KeyError)"
  using run_without_run_name [of "example_workflow\<lparr>user_params := [(''namespace'', PStr ''ns'')]\<rparr>"]
  by (simp add: dict_get_def)

section \<open>Repositories\<close>

lemma repositories_loop_eq:
  "repositories_loop imgs acc = acc @ map (\<lambda>img. PStr (to_str img True True)) imgs"
  by (induction imgs arbitrary: acc) simp_all

text \<open>
  C5. \<^verbatim>\<open>get_repositories\<close> returns exactly the three groups primary, unique and floating.
  Each group is the renderings of its images in their order, nothing dropped and nothing
  merged, so the three groups one after the other are the renderings of all the images of
  the tag configuration, in order, and as many as there are images.
\<close>

theorem get_repositories_groups:
  "\<exists>p u f.
     get_repositories w = PDict [(''primary'', PList p), (''unique'', PList u), (''floating'', PList f)] \<and>
     p = map (\<lambda>img. PStr (to_str img True True)) (primary_images (tag_conf (data w))) \<and>
     u = map (\<lambda>img. PStr (to_str img True True)) (unique_images (tag_conf (data w))) \<and>
     f = map (\<lambda>img. PStr (to_str img True True)) (floating_images (tag_conf (data w))) \<and>
     p @ u @ f =
       map (\<lambda>img. PStr (to_str img True True))
         (primary_images (tag_conf (data w)) @ unique_images (tag_conf (data w)) @
          floating_images (tag_conf (data w))) \<and>
     length p + length u + length f = length (images (tag_conf (data w)))"
  by (simp add: get_repositories_def repositories_loop_eq images_def)

theorem get_repositories_groups_witness:
  "get_repositories example_workflow =
     PDict [(''primary'', PList [PStr ''registry/repo:v1'']), (''unique'', PList []),
            (''floating'', PList [])]"
  using get_repositories_groups [of example_workflow]
  by (simp add: example_workflow_def example_data_def example_image_def to_str_def)

section \<open>Pull specifications\<close>

lemma pullspecs_versions_eq:
  "pullspecs_versions img digest vs acc =
     acc @ map (\<lambda>v. pullspec img (dict_get_or (entries digest) v PNone) v)
             (filter (has_key (entries digest)) vs)"
  by (induction vs arbitrary: acc)
    (auto simp: has_key_def dict_get_or_def split: option.splits)

lemma pullspecs_images_eq:
  "pullspecs_images imgs digests acc =
     acc @ concat (map (\<lambda>img.
       case dict_get digests (to_str img True True) of
         None \<Rightarrow> []
       | Some digest \<Rightarrow>
           map (\<lambda>v. pullspec img (dict_get_or (entries digest) v PNone) v)
             (filter (has_key (entries digest)) (content_type digest))) imgs)"
  by (induction imgs arbitrary: acc) (auto simp: pullspecs_versions_eq split: option.splits)

text \<open>
  C6, as amended. \<^verbatim>\<open>get_pullspecs\<close> emits one record for every image that is in the digest
  map and every content type that is a key of that image's digest, whatever the value
  under the key; an image that is not in the map gives no record, a content type that is
  not a key is passed over, and the records follow the order of the images and then of
  the content types.
\<close>

theorem get_pullspecs_by_key:
  "get_pullspecs w digests =
     concat (map (\<lambda>img.
       case dict_get digests (to_str img True True) of
         None \<Rightarrow> []
       | Some digest \<Rightarrow>
           map (\<lambda>v. pullspec img (dict_get_or (entries digest) v PNone) v)
             (filter (has_key (entries digest)) (content_type digest)))
       (images (tag_conf (data w))))"
  by (simp add: get_pullspecs_def pullspecs_images_eq)

theorem get_pullspecs_by_key_witness:
  "get_pullspecs example_workflow [(''registry/repo:v1'', example_digest)] =
     [pullspec example_image (PStr ''sha256:deadbeef'') ''v2''] \<and>
   get_pullspecs example_workflow [(''registry/other:v1'', example_digest)] = []"
  using get_pullspecs_by_key [of example_workflow "[(''registry/repo:v1'', example_digest)]"]
    get_pullspecs_by_key [of example_workflow "[(''registry/other:v1'', example_digest)]"]
  by (simp add: example_workflow_def example_data_def example_image_def example_digest_def
      images_def to_str_def dict_get_def dict_get_or_def has_key_def)

text \<open>
  C6 as the specification states it fails: a content type whose digest is the empty
  string is a key of the digest, so \<^verbatim>\<open>get_pullspecs\<close> emits its record, where the
  specification, which asks for a truthy digest, emits none.
\<close>

theorem get_pullspecs_falsy_digest_counterexample:
  "get_pullspecs example_workflow
     [(''registry/repo:v1'', \<lparr>content_type = [''v2''], entries = [(''v2'', PStr [])]\<rparr>)] =
     [pullspec example_image (PStr []) ''v2''] \<and>
   \<not> truthy (PStr []) \<and>
   buildPullSpecs_spec (images (tag_conf (data example_workflow)))
     [(''registry/repo:v1'', \<lparr>content_type = [''v2''], entries = [(''v2'', PStr [])]\<rparr>)] = []"
  by (simp add: get_pullspecs_def buildPullSpecs_spec_def example_workflow_def example_data_def
      example_image_def images_def to_str_def dict_get_def dict_get_or_def)

section \<open>The merged annotations\<close>

lemma all_str_encoded: "all_str (encoded u)"
  by (induction u) (simp_all add: all_str_def encoded_def)

lemma has_key_encoded: "has_key (encoded u) k = has_key u k"
  by (simp add: has_key_iff encoded_def image_image)

lemma encoded_member: "(k, v') \<in> set (encoded u) \<Longrightarrow> \<exists>v. (k, v) \<in> set u \<and> v' = PStr (json_enc v)"
  by (auto simp: encoded_def)

lemma dumps_values_Inr: "dumps_values u = Inr u' \<Longrightarrow> u' = encoded u"
proof (induction u arbitrary: u')
  case Nil
  then show ?case by (simp add: encoded_def)
next
  case (Cons a u)
  then show ?case
    by (cases a) (auto simp: and_then_eq_Inr json_dumps_def encoded_def split: if_splits)
qed

lemma update_annotations_Inr:
  "update_annotations a u = Inr a' \<Longrightarrow> a' = dict_update a (encoded u)"
  by (auto simp: update_annotations_def and_then_eq_Inr encoded_def dest: dumps_values_Inr
      split: if_splits)

lemma whitelist_Inr:
  "set_koji_task_annotations_whitelist w a = Inr a' \<Longrightarrow>
   a' = (if whitelist_configured w
         then dict_set a ''koji_task_annotations_whitelist''
                (PStr (json_enc (dict_get_or (conf_koji w) ''task_annotations_whitelist'' PNone)))
         else a)"
  by (auto simp: set_koji_task_annotations_whitelist_def whitelist_configured_def Let_def
      and_then_eq_Inr json_dumps_def split: if_splits)

lemma run_merged_Inr:
  assumes "run_merged_annotations w a = Inr a'"
  shows "a' =
    (let m = dict_update (dict_update (dict_update a (config_map_items w))
               (encoded (annotations (data w)))) (encoded (build_result_annotations (data w)))
     in if whitelist_configured w
        then dict_set m ''koji_task_annotations_whitelist''
               (PStr (json_enc (dict_get_or (conf_koji w) ''task_annotations_whitelist'' PNone)))
        else m)"
proof -
  from assms obtain c a5 a6 where
    c: "dict_items (get_config_map w) = Inr c" and
    a5: "apply_plugin_annotations w (dict_update a c) = Inr a5" and
    a6: "apply_build_result_annotations w a5 = Inr a6" and
    a': "set_koji_task_annotations_whitelist w a6 = Inr a'"
    by (auto simp: run_merged_annotations_def and_then_eq_Inr)
  from c have "config_map_items w = c" by (simp add: config_map_items_def)
  moreover from a5 have "a5 = dict_update (dict_update a c) (encoded (annotations (data w)))"
    by (simp add: apply_plugin_annotations_def update_annotations_Inr)
  moreover from a6 have "a6 = dict_update a5 (encoded (build_result_annotations (data w)))"
    by (simp add: apply_build_result_annotations_def update_annotations_Inr)
  ultimately show ?thesis using whitelist_Inr [OF a'] by (simp add: Let_def)
qed

lemma run_merged_frame:
  assumes "run_merged_annotations w a = Inr a'" and "\<not> merged_key w k"
    and "k \<noteq> ''koji_task_annotations_whitelist''"
  shows "dict_get a' k = dict_get a k"
  using assms(2,3) unfolding run_merged_Inr [OF assms(1)] merged_key_def Let_def
  by (simp add: dict_get_set dict_get_update_other has_key_encoded)

lemma run_merged_all_str:
  assumes "run_merged_annotations w a = Inr a'" and "all_str a" and "all_str (config_map_items w)"
  shows "all_str a'"
  using assms(2,3) unfolding run_merged_Inr [OF assms(1)] Let_def
  by (simp add: all_str_set all_str_update all_str_encoded)

section \<open>The steps of \<^verbatim>\<open>run\<close>\<close>

lemma run_Inr:
  "run w = (calls, Inr r) \<Longrightarrow>
   run_annotations w = Inr (result_annotations r) \<and> result_labels r = make_labels w"
  by (auto simp: run_def Let_def split: sum.splits option.splits if_splits)

lemma run_annotations_Inr:
  "run_annotations w = Inr a \<Longrightarrow>
   \<exists>b. run_built_annotations w = Inr b \<and> run_merged_annotations w b = Inr a"
  by (simp add: run_annotations_def and_then_eq_Inr)

lemma run_initial_Inr:
  "run_initial_annotations w = Inr a \<Longrightarrow>
   \<exists>r d m f. a = [(''repositories'', PStr r), (''digests'', PStr d),
                  (''plugins-metadata'', PStr m), (''filesystem'', PStr f)]"
  by (auto simp: run_initial_annotations_def and_then_eq_Inr)

lemma run_source_Inr:
  "run_source_annotations w a = Inr a' \<Longrightarrow>
   \<exists>v. a' = dict_set a ''image-id'' v \<and>
       (v = PStr [] \<or>
        and_then (subscript (koji_source_manifest (data w)) ''config'')
          (\<lambda>config. subscript config ''digest'') = Inr v)"
  by (auto simp: run_source_annotations_def Let_def and_then_eq_Inr dict_set_set split: if_splits)

lemma run_full_Inr:
  "run_full_annotations w fb a = Inr a' \<Longrightarrow>
   a' = dict_set (dict_set (dict_set (dict_set (dict_set (dict_set a
          ''dockerfile'' (PStr (dockerfile_contents fb)))
          ''commit_id'' (commit_id fb))
          ''base-image-id'' (base_image_id fb))
          ''base-image-name'' (base_image_name fb))
          ''image-id'' (if truthy (image_id (data w)) then image_id (data w) else PStr []))
          ''parent_images'' (PStr (json_enc (PDict (parent_images_strings fb))))"
  by (auto simp: run_full_annotations_def Let_def and_then_eq_Inr json_dumps_def split: if_splits)

lemma py_eq_PStr [simp]: "py_eq (PStr x) (PStr y) \<longleftrightarrow> x = y"
  by (simp add: py_eq_def)

lemma py_set_loop_strs:
  "distinct seen \<Longrightarrow>
   \<exists>ts. py_set_loop (map PStr ss) (map PStr seen) = map PStr ts \<and> distinct ts \<and>
        set ts = set seen \<union> set ss"
proof (induction ss arbitrary: seen)
  case Nil
  then show ?case by auto
next
  case (Cons x ss)
  have ex: "list_ex (py_eq (PStr x)) (map PStr seen) \<longleftrightarrow> x \<in> set seen"
    by (auto simp: list_ex_iff)
  show ?case
  proof (cases "x \<in> set seen")
    case True
    with Cons.IH [OF Cons.prems] ex show ?thesis by auto
  next
    case False
    with Cons.prems have "distinct (seen @ [x])" by simp
    from Cons.IH [OF this] obtain ts where
      "py_set_loop (map PStr ss) (map PStr (seen @ [x])) = map PStr ts" "distinct ts"
      "set ts = set (seen @ [x]) \<union> set ss" by blast
    with False ex show ?thesis by auto
  qed
qed

lemma py_sorted_strs: "py_sorted (map PStr ts) = Inr (map PStr (sort ts))"
proof (cases "length ts \<le> 1")
  case True
  then have "sort ts = ts" by (cases ts) (auto simp: le_Suc_eq)
  with True show ?thesis by (simp add: py_sorted_def)
next
  case False
  moreover have "list_all is_str (map PStr ts)" by (simp add: list_all_iff)
  moreover have "map str_of (map PStr ts) = ts" by (simp add: comp_def)
  ultimately show ?thesis by (simp add: py_sorted_def)
qed

lemma sorted_set_strs:
  assumes "ss \<noteq> []"
  shows "and_then (py_set (map PStr ss)) (\<lambda>d. and_then (py_sorted d) (\<lambda>s. json_dumps (PList s))) =
         Inr (json_enc (PList (map PStr (sort (remdups ss)))))"
proof -
  from py_set_loop_strs [of "[]" ss] obtain ts where
    ts: "py_set_loop (map PStr ss) [] = map PStr ts" "distinct ts" "set ts = set ss" by auto
  have "sorted (sort ts)" "distinct (sort ts)" "set (sort ts) = set (sort (remdups ss))"
    using ts by simp_all
  then have "sort ts = sort (remdups ss)"
    by (intro sorted_distinct_set_unique) simp_all
  moreover have "list_all hashable (map PStr ss)" by (simp add: list_all_iff)
  moreover have "json_ok (PList (map PStr (sort (remdups ss))))" by (simp add: list_all_iff)
  ultimately show ?thesis using ts(1)
    by (simp add: py_set_def py_sorted_strs json_dumps_def)
qed

lemma run_media_types_Inr:
  assumes "run_media_types w a = Inr a'"
  shows "a' = a \<or> (\<exists>s. a' = dict_set a ''media-types'' (PStr s))"
    and "(case dict_get (exit_results (data w)) PLUGIN_VERIFY_MEDIA_KEY of
            None \<Rightarrow> a' = a
          | Some m \<Rightarrow>
              if is_exception m \<or> \<not> truthy m then a' = a
              else \<forall>ss. m = PList (map PStr ss) \<longrightarrow>
                     a' = dict_set a ''media-types''
                            (PStr (json_enc (PList (map PStr (sort (remdups ss)))))))"
proof -
  show "a' = a \<or> (\<exists>s. a' = dict_set a ''media-types'' (PStr s))"
    using assms by (auto simp: run_media_types_def Let_def and_then_eq_Inr split: if_splits)
  show "(case dict_get (exit_results (data w)) PLUGIN_VERIFY_MEDIA_KEY of
            None \<Rightarrow> a' = a
          | Some m \<Rightarrow>
              if is_exception m \<or> \<not> truthy m then a' = a
              else \<forall>ss. m = PList (map PStr ss) \<longrightarrow>
                     a' = dict_set a ''media-types''
                            (PStr (json_enc (PList (map PStr (sort (remdups ss)))))))"
  proof (cases "dict_get (exit_results (data w)) PLUGIN_VERIFY_MEDIA_KEY")
    case None
    with assms show ?thesis by (simp add: run_media_types_def dict_get_or_def)
  next
    case (Some m)
    show ?thesis
    proof (cases "is_exception m \<or> \<not> truthy m")
      case True
      with assms Some show ?thesis
        by (auto simp: run_media_types_def dict_get_or_def Let_def split: if_splits)
    next
      case False
      { fix ss assume m: "m = PList (map PStr ss)"
        with False have "ss \<noteq> []" by simp
        from sorted_set_strs [OF this] assms Some False m \<open>ss \<noteq> []\<close>
        have "a' = dict_set a ''media-types''
                     (PStr (json_enc (PList (map PStr (sort (remdups ss))))))"
          by (auto simp: run_media_types_def dict_get_or_def Let_def and_then_eq_Inr) }
      with Some False show ?thesis by simp
    qed
  qed
qed

lemma run_tar_metadata_Inr:
  assumes "run_tar_metadata w a = Inr a'"
  shows "if tar_fields_present w
         then \<exists>p. dict_get_or (last (exported_image_sequence (data w))) ''path'' PNone = PStr p \<and>
                  a' = dict_set a ''tar_metadata''
                    (PStr (json_enc (PDict
                      [(''size'', dict_get_or (last (exported_image_sequence (data w))) ''size'' PNone),
                       (''md5sum'', dict_get_or (last (exported_image_sequence (data w))) ''md5sum'' PNone),
                       (''sha256sum'', dict_get_or (last (exported_image_sequence (data w))) ''sha256sum'' PNone),
                       (''filename'', PStr (basename p))])))
         else a' = a"
proof (cases "exported_image_sequence (data w) = []")
  case True
  with assms show ?thesis
    by (simp add: run_tar_metadata_def tar_fields_present_def dict_get_or_def dict_get_def)
next
  case False
  show ?thesis
  proof (cases "tar_fields_present w")
    case True
    with False assms obtain fn where
      fn: "os_path_basename (dict_get_or (last (exported_image_sequence (data w))) ''path'' PNone) = Inr fn"
      by (auto simp: run_tar_metadata_def tar_fields_present_def Let_def and_then_eq_Inr)
    then obtain p where
      p: "dict_get_or (last (exported_image_sequence (data w))) ''path'' PNone = PStr p" "fn = basename p"
      by (cases "dict_get_or (last (exported_image_sequence (data w))) ''path'' PNone") auto
    with True False assms show ?thesis
      by (auto simp: run_tar_metadata_def tar_fields_present_def Let_def and_then_eq_Inr
          json_dumps_def split: if_splits)
  next
    case True': False
    with False assms show ?thesis
      by (auto simp: run_tar_metadata_def tar_fields_present_def Let_def)
  qed
qed

lemma remote_source_Inr:
  "apply_remote_source_annotations w a = Inr a' \<Longrightarrow>
   a' = a \<or> (\<exists>s. a' = dict_set a ''remote_sources'' (PStr s))"
  by (auto simp: apply_remote_source_annotations_def Let_def and_then_eq_Inr
      split: sum.splits if_splits)

lemma run_built_Inr:
  assumes "run_built_annotations w = Inr b"
  obtains a0 a1 a2 a3 where
    "run_initial_annotations w = Inr a0"
    "if source_build w then run_source_annotations w a0 = Inr a1
     else \<exists>fb. run_full_build_fields w = Inr fb \<and> run_full_annotations w fb a0 = Inr a1"
    "run_media_types w a1 = Inr a2"
    "run_tar_metadata w a2 = Inr a3"
    "apply_remote_source_annotations w a3 = Inr b"
  using assms unfolding run_built_annotations_def
  by (auto simp: and_then_eq_Inr split: if_splits)

section \<open>What is published under one key\<close>

lemma run_succeeds_Inr:
  assumes "run_succeeds w"
  obtains calls r where "run w = (calls, Inr r)" "published_annotations w = result_annotations r"
    "published_labels w = result_labels r"
  using assms
  by (cases "run w"; cases "snd (run w)")
    (auto simp: run_succeeds_def published_annotations_def published_labels_def)

lemma published_built:
  assumes "run_succeeds w"
  obtains b where "run_built_annotations w = Inr b"
    "run_merged_annotations w b = Inr (published_annotations w)"
proof -
  from assms obtain calls r where "run w = (calls, Inr r)"
    "published_annotations w = result_annotations r" by (rule run_succeeds_Inr)
  with run_Inr [of w calls r] run_annotations_Inr [of w "result_annotations r"] that
  show thesis by auto
qed

lemma initial_keys:
  "run_initial_annotations w = Inr a \<Longrightarrow>
   k \<notin> {''repositories'', ''digests'', ''plugins-metadata'', ''filesystem''} \<Longrightarrow>
   dict_get a k = None"
  by (auto dest!: run_initial_Inr simp: dict_get_def)

lemma branch_frame:
  assumes "if source_build w then run_source_annotations w a0 = Inr a1
     else \<exists>fb. run_full_build_fields w = Inr fb \<and> run_full_annotations w fb a0 = Inr a1"
    and "k \<notin> {''image-id'', ''dockerfile'', ''commit_id'', ''base-image-id'',
               ''base-image-name'', ''parent_images''}"
  shows "dict_get a1 k = dict_get a0 k"
proof (cases "source_build w")
  case True
  with assms(1) obtain v where "a1 = dict_set a0 ''image-id'' v"
    by (auto dest: run_source_Inr)
  with assms(2) show ?thesis by (simp add: dict_get_set)
next
  case False
  with assms(1) obtain fb where "run_full_annotations w fb a0 = Inr a1" by auto
  from run_full_Inr [OF this] assms(2) show ?thesis by (simp add: dict_get_set)
qed

lemma media_frame:
  "run_media_types w a = Inr a' \<Longrightarrow> k \<noteq> ''media-types'' \<Longrightarrow> dict_get a' k = dict_get a k"
  by (auto dest!: run_media_types_Inr(1) simp: dict_get_set)

lemma tar_frame:
  "run_tar_metadata w a = Inr a' \<Longrightarrow> k \<noteq> ''tar_metadata'' \<Longrightarrow> dict_get a' k = dict_get a k"
  by (auto dest!: run_tar_metadata_Inr simp: dict_get_set split: if_splits)

lemma remote_frame:
  "apply_remote_source_annotations w a = Inr a' \<Longrightarrow> k \<noteq> ''remote_sources'' \<Longrightarrow>
   dict_get a' k = dict_get a k"
  by (auto dest!: remote_source_Inr simp: dict_get_set)

lemma built_tar_metadata:
  assumes "run_built_annotations w = Inr b"
  shows "if tar_fields_present w
         then \<exists>p. dict_get_or (last (exported_image_sequence (data w))) ''path'' PNone = PStr p \<and>
                  dict_get b ''tar_metadata'' = Some
                    (PStr (json_enc (PDict
                      [(''size'', dict_get_or (last (exported_image_sequence (data w))) ''size'' PNone),
                       (''md5sum'', dict_get_or (last (exported_image_sequence (data w))) ''md5sum'' PNone),
                       (''sha256sum'', dict_get_or (last (exported_image_sequence (data w))) ''sha256sum'' PNone),
                       (''filename'', PStr (basename p))])))
         else dict_get b ''tar_metadata'' = None"
proof -
  from assms obtain a0 a1 a2 a3 where
    a0: "run_initial_annotations w = Inr a0" and
    a1: "if source_build w then run_source_annotations w a0 = Inr a1
     else \<exists>fb. run_full_build_fields w = Inr fb \<and> run_full_annotations w fb a0 = Inr a1" and
    a2: "run_media_types w a1 = Inr a2" and
    a3: "run_tar_metadata w a2 = Inr a3" and
    b: "apply_remote_source_annotations w a3 = Inr b"
    by (rule run_built_Inr)
  have "dict_get a2 ''tar_metadata'' = None"
    using initial_keys [OF a0, of "''tar_metadata''"] branch_frame [OF a1, of "''tar_metadata''"]
      media_frame [OF a2, of "''tar_metadata''"] by simp
  moreover have "dict_get b ''tar_metadata'' = dict_get a3 ''tar_metadata''"
    using remote_frame [OF b] by simp
  ultimately show ?thesis using run_tar_metadata_Inr [OF a3]
    by (auto simp: dict_get_set split: if_splits)
qed

lemma built_media_types:
  assumes "run_built_annotations w = Inr b"
  shows "(case dict_get (exit_results (data w)) PLUGIN_VERIFY_MEDIA_KEY of
            None \<Rightarrow> dict_get b ''media-types'' = None
          | Some m \<Rightarrow>
              if is_exception m \<or> \<not> truthy m then dict_get b ''media-types'' = None
              else \<forall>ss. m = PList (map PStr ss) \<longrightarrow>
                     dict_get b ''media-types'' =
                       Some (PStr (json_enc (PList (map PStr (sort (remdups ss)))))))"
proof -
  from assms obtain a0 a1 a2 a3 where
    a0: "run_initial_annotations w = Inr a0" and
    a1: "if source_build w then run_source_annotations w a0 = Inr a1
     else \<exists>fb. run_full_build_fields w = Inr fb \<and> run_full_annotations w fb a0 = Inr a1" and
    a2: "run_media_types w a1 = Inr a2" and
    a3: "run_tar_metadata w a2 = Inr a3" and
    b: "apply_remote_source_annotations w a3 = Inr b"
    by (rule run_built_Inr)
  have "dict_get a1 ''media-types'' = None"
    using initial_keys [OF a0, of "''media-types''"] branch_frame [OF a1, of "''media-types''"]
    by simp
  moreover have "dict_get b ''media-types'' = dict_get a2 ''media-types''"
    using remote_frame [OF b, of "''media-types''"] tar_frame [OF a3, of "''media-types''"]
    by simp
  ultimately show ?thesis using run_media_types_Inr(2) [OF a2]
    by (auto simp: dict_get_set split: option.splits if_splits)
qed

lemma published_unmerged:
  assumes "run_succeeds w" and "\<not> merged_key w k" and "k \<noteq> ''koji_task_annotations_whitelist''"
  obtains b where "run_built_annotations w = Inr b" "published_annotation w k = dict_get b k"
proof -
  from assms(1) obtain b where b: "run_built_annotations w = Inr b"
    "run_merged_annotations w b = Inr (published_annotations w)" by (rule published_built)
  from run_merged_frame [OF b(2) assms(2,3)] b(1) that show thesis
    by (simp add: published_annotation_def)
qed

section \<open>The archive metadata\<close>

text \<open>
  C3, as amended. When \<^verbatim>\<open>run\<close> returns and none of the merged sources (configuration map,
  plugin annotations, build-result annotations) has a \<^verbatim>\<open>tar_metadata\<close> key of its own, the
  published annotations have the key \<^verbatim>\<open>tar_metadata\<close> if and only if the most recently
  exported artifact has all four of path, size, md5 checksum and sha256 checksum.
\<close>

theorem tar_metadata_iff_all_fields:
  assumes "run_succeeds w" and "\<not> merged_key w ''tar_metadata''"
  shows "published_annotation w ''tar_metadata'' \<noteq> None \<longleftrightarrow> tar_fields_present w"
proof -
  from assms obtain b where b: "run_built_annotations w = Inr b"
    "published_annotation w ''tar_metadata'' = dict_get b ''tar_metadata''"
    by (rule published_unmerged) simp
  from built_tar_metadata [OF b(1)] b(2) show ?thesis by (auto split: if_splits)
qed

text \<open>The example has the four fields and the key; with the md5 checksum missing the key
  is absent.\<close>

theorem tar_metadata_iff_all_fields_witness:
  "run_succeeds example_workflow \<and> \<not> merged_key example_workflow ''tar_metadata'' \<and>
   tar_fields_present example_workflow \<and>
   published_annotation example_workflow ''tar_metadata'' \<noteq> None \<and>
   run_succeeds (example_workflow\<lparr>data := example_data\<lparr>exported_image_sequence :=
     [[(''path'', PStr ''/var/tmp/image.tar''), (''size'', PInt 120), (''md5sum'', PNone),
       (''sha256sum'', PStr ''s256'')]]\<rparr>\<rparr>) \<and>
   published_annotation (example_workflow\<lparr>data := example_data\<lparr>exported_image_sequence :=
     [[(''path'', PStr ''/var/tmp/image.tar''), (''size'', PInt 120), (''md5sum'', PNone),
       (''sha256sum'', PStr ''s256'')]]\<rparr>\<rparr>) ''tar_metadata'' = None"
proof -
  let ?w = "example_workflow\<lparr>data := example_data\<lparr>exported_image_sequence :=
     [[(''path'', PStr ''/var/tmp/image.tar''), (''size'', PInt 120), (''md5sum'', PNone),
       (''sha256sum'', PStr ''s256'')]]\<rparr>\<rparr>"
  have s: "run_succeeds example_workflow" by code_simp
  have m: "\<not> merged_key example_workflow ''tar_metadata''" by code_simp
  have t: "tar_fields_present example_workflow" by code_simp
  have s': "run_succeeds ?w" by code_simp
  have m': "\<not> merged_key ?w ''tar_metadata''" by code_simp
  have t': "\<not> tar_fields_present ?w" by code_simp
  from tar_metadata_iff_all_fields [OF s m] t
  have "published_annotation example_workflow ''tar_metadata'' \<noteq> None" by simp
  moreover from tar_metadata_iff_all_fields [OF s' m'] t'
  have "published_annotation ?w ''tar_metadata'' = None" by simp
  ultimately show ?thesis using s m t s' by simp
qed

text \<open>
  C3 as the specification states it fails: with no exported artifact at all, a plugin
  annotation named \<^verbatim>\<open>tar_metadata\<close> puts the key into the published annotations.
\<close>

theorem tar_metadata_merged_counterexample:
  "run_succeeds (example_workflow\<lparr>data := example_data\<lparr>exported_image_sequence := [],
     annotations := [(''tar_metadata'', PStr ''x'')]\<rparr>\<rparr>) \<and>
   \<not> tar_fields_present (example_workflow\<lparr>data := example_data\<lparr>exported_image_sequence := [],
     annotations := [(''tar_metadata'', PStr ''x'')]\<rparr>\<rparr>) \<and>
   published_annotation (example_workflow\<lparr>data := example_data\<lparr>exported_image_sequence := [],
     annotations := [(''tar_metadata'', PStr ''x'')]\<rparr>\<rparr>) ''tar_metadata'' =
     Some (PStr (json_enc (PStr ''x'')))"
  by code_simp

lemma basename_no_slash: "CHR ''/'' \<notin> set (basename p)"
  using set_takeWhileD [of "CHR ''/''" "\<lambda>c. c \<noteq> CHR ''/''" "rev p"] by (auto simp: basename_def)

lemma basename_suffix:
  "\<exists>dir. p = dir @ basename p \<and> (dir = [] \<or> last dir = CHR ''/'')"
proof -
  let ?P = "\<lambda>c. c \<noteq> CHR ''/''"
  let ?d = "rev (dropWhile ?P (rev p))"
  have "?d @ basename p = rev (takeWhile ?P (rev p) @ dropWhile ?P (rev p))"
    unfolding basename_def by (simp only: rev_append)
  also have "\<dots> = p" by simp
  finally have "p = ?d @ basename p" by simp
  moreover have "?d = [] \<or> last ?d = CHR ''/''"
    using hd_dropWhile [of ?P "rev p"] by (auto simp: last_rev)
  ultimately show ?thesis by blast
qed

text \<open>
  C10, as amended. When \<^verbatim>\<open>run\<close> returns, none of the merged sources has a \<^verbatim>\<open>tar_metadata\<close>
  key of its own and the key is published, its value is the encoding of size, checksums
  and a file name, and the file name is the base name of the exported path: what follows
  the last slash of the path, with no slash in it. No directory of the path is published.
\<close>

theorem tar_metadata_filename_is_basename:
  assumes "run_succeeds w" and "\<not> merged_key w ''tar_metadata''"
    and "published_annotation w ''tar_metadata'' \<noteq> None"
  shows "\<exists>p dir.
           dict_get_or (last (exported_image_sequence (data w))) ''path'' PNone = PStr p \<and>
           published_annotation w ''tar_metadata'' = Some
             (PStr (json_enc (PDict
                [(''size'', dict_get_or (last (exported_image_sequence (data w))) ''size'' PNone),
                 (''md5sum'', dict_get_or (last (exported_image_sequence (data w))) ''md5sum'' PNone),
                 (''sha256sum'', dict_get_or (last (exported_image_sequence (data w))) ''sha256sum'' PNone),
                 (''filename'', PStr (basename p))]))) \<and>
           p = dir @ basename p \<and> (dir = [] \<or> last dir = CHR ''/'') \<and>
           CHR ''/'' \<notin> set (basename p)"
proof -
  from assms(1,2) obtain b where b: "run_built_annotations w = Inr b"
    "published_annotation w ''tar_metadata'' = dict_get b ''tar_metadata''"
    by (rule published_unmerged) simp
  from built_tar_metadata [OF b(1)] b(2) assms(3) obtain p where
    p: "dict_get_or (last (exported_image_sequence (data w))) ''path'' PNone = PStr p"
      "published_annotation w ''tar_metadata'' = Some
        (PStr (json_enc (PDict
          [(''size'', dict_get_or (last (exported_image_sequence (data w))) ''size'' PNone),
           (''md5sum'', dict_get_or (last (exported_image_sequence (data w))) ''md5sum'' PNone),
           (''sha256sum'', dict_get_or (last (exported_image_sequence (data w))) ''sha256sum'' PNone),
           (''filename'', PStr (basename p))])))"
    by (auto split: if_splits)
  from basename_suffix [of p] obtain dir where
    "p = dir @ basename p" "dir = [] \<or> last dir = CHR ''/''" by blast
  with p basename_no_slash [of p] show ?thesis by blast
qed

text \<open>The example publishes \<^verbatim>\<open>image.tar\<close> for the path \<^verbatim>\<open>/var/tmp/image.tar\<close>.\<close>

theorem tar_metadata_filename_is_basename_witness:
  "run_succeeds example_workflow \<and> \<not> merged_key example_workflow ''tar_metadata'' \<and>
   published_annotation example_workflow ''tar_metadata'' =
     Some (PStr (json_enc (PDict [(''size'', PInt 120), (''md5sum'', PStr ''m5''),
       (''sha256sum'', PStr ''s256''), (''filename'', PStr ''image.tar'')])))"
proof -
  have s: "run_succeeds example_workflow" by code_simp
  have m: "\<not> merged_key example_workflow ''tar_metadata''" by code_simp
  have n: "published_annotation example_workflow ''tar_metadata'' \<noteq> None" by code_simp
  have p: "dict_get_or (last (exported_image_sequence (data example_workflow))) ''path'' PNone =
           PStr ''/var/tmp/image.tar''" by code_simp
  have q: "dict_get_or (last (exported_image_sequence (data example_workflow))) ''size'' PNone =
           PInt 120" by code_simp
  have r: "dict_get_or (last (exported_image_sequence (data example_workflow))) ''md5sum'' PNone =
           PStr ''m5''" by code_simp
  have t: "dict_get_or (last (exported_image_sequence (data example_workflow))) ''sha256sum'' PNone =
           PStr ''s256''" by code_simp
  have b: "basename ''/var/tmp/image.tar'' = ''image.tar''" by code_simp
  from tar_metadata_filename_is_basename [OF s m n] p q r t b s m show ?thesis by auto
qed

text \<open>
  C10 as the specification states it fails: a build-result annotation named
  \<^verbatim>\<open>tar_metadata\<close> replaces the one built from the artifact, and here its file name is the
  full path of the artifact and not the base name.
\<close>

theorem tar_metadata_filename_counterexample:
  "run_succeeds (example_workflow\<lparr>data := example_data\<lparr>build_result_annotations :=
     [(''tar_metadata'', PDict [(''filename'', PStr ''/var/tmp/image.tar'')])]\<rparr>\<rparr>) \<and>
   dict_get_or (last (exported_image_sequence (data (example_workflow\<lparr>data :=
     example_data\<lparr>build_result_annotations :=
       [(''tar_metadata'', PDict [(''filename'', PStr ''/var/tmp/image.tar'')])]\<rparr>\<rparr>)))) ''path'' PNone =
     PStr ''/var/tmp/image.tar'' \<and>
   published_annotation (example_workflow\<lparr>data := example_data\<lparr>build_result_annotations :=
     [(''tar_metadata'', PDict [(''filename'', PStr ''/var/tmp/image.tar'')])]\<rparr>\<rparr>) ''tar_metadata'' =
     Some (PStr (json_enc (PDict [(''filename'', PStr ''/var/tmp/image.tar'')]))) \<and>
   basename ''/var/tmp/image.tar'' = ''image.tar''"
  by code_simp

section \<open>The media types\<close>

text \<open>
  C7, as amended. When \<^verbatim>\<open>run\<close> returns and none of the merged sources has a
  \<^verbatim>\<open>media-types\<close> key of its own: the key is absent from the published annotations when the
  verification stage has no result, when its result is an exception and when its result
  is empty; and when the result is a non-empty list of strings, the value is the encoding
  of these strings without duplicates and in ascending order.
\<close>

theorem media_types_sorted_distinct:
  assumes "run_succeeds w" and "\<not> merged_key w ''media-types''"
  shows "(case dict_get (exit_results (data w)) PLUGIN_VERIFY_MEDIA_KEY of
            None \<Rightarrow> published_annotation w ''media-types'' = None
          | Some m \<Rightarrow>
              if is_exception m \<or> \<not> truthy m then published_annotation w ''media-types'' = None
              else \<forall>ss. m = PList (map PStr ss) \<longrightarrow>
                     published_annotation w ''media-types'' =
                       Some (PStr (json_enc (PList (map PStr (sort (remdups ss)))))))"
proof -
  from assms obtain b where b: "run_built_annotations w = Inr b"
    "published_annotation w ''media-types'' = dict_get b ''media-types''"
    by (rule published_unmerged) simp
  show ?thesis unfolding b(2) by (rule built_media_types [OF b(1)])
qed

text \<open>The media types b, a, a are published as a, b.\<close>

theorem media_types_sorted_distinct_witness:
  "run_succeeds example_workflow \<and> \<not> merged_key example_workflow ''media-types'' \<and>
   dict_get (exit_results (data example_workflow)) PLUGIN_VERIFY_MEDIA_KEY =
     Some (PList [PStr ''b'', PStr ''a'', PStr ''a'']) \<and>
   published_annotation example_workflow ''media-types'' =
     Some (PStr (json_enc (PList [PStr ''a'', PStr ''b''])))"
proof -
  have s: "run_succeeds example_workflow" by code_simp
  have m: "\<not> merged_key example_workflow ''media-types''" by code_simp
  have e: "dict_get (exit_results (data example_workflow)) PLUGIN_VERIFY_MEDIA_KEY =
     Some (PList (map PStr [''b'', ''a'', ''a'']))" by code_simp
  have o: "sort (remdups [''b'', ''a'', ''a'']) = [''a'', ''b'']" by code_simp
  from media_types_sorted_distinct [OF s m] e
  have "published_annotation example_workflow ''media-types'' =
     Some (PStr (json_enc (PList (map PStr (sort (remdups [''b'', ''a'', ''a'']))))))"
    by (simp del: remdups.simps)
  with o s m e show ?thesis by simp
qed

text \<open>
  C7 as the specification states it fails: with no result of the verification stage, a
  build-result annotation named \<^verbatim>\<open>media-types\<close> puts the key into the published
  annotations.
\<close>

theorem media_types_merged_counterexample:
  "run_succeeds (example_workflow\<lparr>data := example_data\<lparr>exit_results := [],
     build_result_annotations := [(''media-types'', PList [PStr ''x''])]\<rparr>\<rparr>) \<and>
   dict_get (exit_results (data (example_workflow\<lparr>data := example_data\<lparr>exit_results := [],
     build_result_annotations := [(''media-types'', PList [PStr ''x''])]\<rparr>\<rparr>)))
     PLUGIN_VERIFY_MEDIA_KEY = None \<and>
   published_annotation (example_workflow\<lparr>data := example_data\<lparr>exit_results := [],
     build_result_annotations := [(''media-types'', PList [PStr ''x''])]\<rparr>\<rparr>) ''media-types'' =
     Some (PStr (json_enc (PList [PStr ''x''])))"
  by code_simp

section \<open>Precedence of the merged sources\<close>

text \<open>
  C1, as amended. When \<^verbatim>\<open>run\<close> returns, the merges are applied in the order configuration
  map, plugin annotations, build-result annotations, a later one overwriting an earlier
  one: for every key other than the allow-list key \<^verbatim>\<open>koji_task_annotations_whitelist\<close> (and
  for that key too when no allow-list is configured), the published annotation is the
  encoding of a value the build result has under the key, if it has the key; otherwise the
  encoding of a value the plugin annotations have under it, if they have the key;
  otherwise a value the configuration map has under it, as it is, if it has the key.
\<close>

theorem merged_sources_precedence:
  assumes "run_succeeds w"
    and "k \<noteq> ''koji_task_annotations_whitelist'' \<or> \<not> whitelist_configured w"
  shows "(has_key (build_result_annotations (data w)) k \<longrightarrow>
            (\<exists>v. (k, v) \<in> set (build_result_annotations (data w)) \<and>
                 published_annotation w k = Some (PStr (json_enc v)))) \<and>
         (\<not> has_key (build_result_annotations (data w)) k \<and> has_key (annotations (data w)) k \<longrightarrow>
            (\<exists>v. (k, v) \<in> set (annotations (data w)) \<and>
                 published_annotation w k = Some (PStr (json_enc v)))) \<and>
         (\<not> has_key (build_result_annotations (data w)) k \<and> \<not> has_key (annotations (data w)) k \<and>
          has_key (config_map_items w) k \<longrightarrow>
            (\<exists>v. (k, v) \<in> set (config_map_items w) \<and> published_annotation w k = Some v))"
proof -
  from assms(1) obtain b where b: "run_built_annotations w = Inr b"
    "run_merged_annotations w b = Inr (published_annotations w)" by (rule published_built)
  let ?c = "dict_update b (config_map_items w)"
  let ?p = "dict_update ?c (encoded (annotations (data w)))"
  let ?m = "dict_update ?p (encoded (build_result_annotations (data w)))"
  from run_merged_Inr [OF b(2)] assms(2)
  have pub: "published_annotation w k = dict_get ?m k"
    by (auto simp: published_annotation_def Let_def dict_get_set)
  have br: "\<exists>v. (k, v) \<in> set (build_result_annotations (data w)) \<and>
                 published_annotation w k = Some (PStr (json_enc v))"
    if "has_key (build_result_annotations (data w)) k"
  proof -
    from that have "has_key (encoded (build_result_annotations (data w))) k"
      by (simp add: has_key_encoded)
    from dict_get_update_in [OF this, of ?p] obtain v' where
      "(k, v') \<in> set (encoded (build_result_annotations (data w)))" "dict_get ?m k = Some v'"
      by blast
    with encoded_member [of k v'] pub show ?thesis by auto
  qed
  have pl: "\<exists>v. (k, v) \<in> set (annotations (data w)) \<and>
                 published_annotation w k = Some (PStr (json_enc v))"
    if "\<not> has_key (build_result_annotations (data w)) k" "has_key (annotations (data w)) k"
  proof -
    from that(1) have "dict_get ?m k = dict_get ?p k"
      by (simp add: dict_get_update_other has_key_encoded)
    moreover from that(2) have "has_key (encoded (annotations (data w))) k"
      by (simp add: has_key_encoded)
    from dict_get_update_in [OF this, of ?c] obtain v' where
      "(k, v') \<in> set (encoded (annotations (data w)))" "dict_get ?p k = Some v'"
      by blast
    ultimately show ?thesis using encoded_member [of k v'] pub by auto
  qed
  have cm: "\<exists>v. (k, v) \<in> set (config_map_items w) \<and> published_annotation w k = Some v"
    if "\<not> has_key (build_result_annotations (data w)) k" "\<not> has_key (annotations (data w)) k"
      "has_key (config_map_items w) k"
  proof -
    from that(1,2) have "dict_get ?m k = dict_get ?c k"
      by (simp add: dict_get_update_other has_key_encoded)
    with dict_get_update_in [OF that(3), of b] pub show ?thesis by auto
  qed
  from br pl cm show ?thesis by blast
qed

text \<open>All three sources have the key \<^verbatim>\<open>k\<close>: the build result wins. The key \<^verbatim>\<open>p\<close> comes from
  the plugin annotations and \<^verbatim>\<open>c\<close> from the configuration map.\<close>

theorem merged_sources_precedence_witness:
  "run_succeeds example_merged \<and>
   published_annotation example_merged ''k'' = Some (PStr (json_enc (PStr ''result''))) \<and>
   published_annotation example_merged ''p'' = Some (PStr (json_enc (PInt 1))) \<and>
   published_annotation example_merged ''c'' = Some (PStr ''config'')"
proof -
  have s: "run_succeeds example_merged" by code_simp
  have br: "build_result_annotations (data example_merged) = [(''k'', PStr ''result'')]"
    by (simp add: example_merged_def)
  have pl: "annotations (data example_merged) = [(''k'', PStr ''plugin''), (''p'', PInt 1)]"
    by (simp add: example_merged_def)
  have cm: "config_map_items example_merged = [(''k'', PStr ''config''), (''c'', PStr ''config'')]"
    by code_simp
  have "published_annotation example_merged ''k'' = Some (PStr (json_enc (PStr ''result'')))"
    using merged_sources_precedence [OF s, of "''k''"] br by (auto simp: has_key_Cons)
  moreover have "published_annotation example_merged ''p'' = Some (PStr (json_enc (PInt 1)))"
    using merged_sources_precedence [OF s, of "''p''"] br pl by (auto simp: has_key_Cons)
  moreover have "published_annotation example_merged ''c'' = Some (PStr ''config'')"
    using merged_sources_precedence [OF s, of "''c''"] br pl cm by (auto simp: has_key_Cons)
  ultimately show ?thesis using s by simp
qed

text \<open>
  C1 as the specification states it fails: when an allow-list is configured, its
  encoding is written last under \<^verbatim>\<open>koji_task_annotations_whitelist\<close>, over the value the
  build result (and the plugin annotations) have under that key.
\<close>

theorem allow_list_overwrites_counterexample:
  "run_succeeds example_allow_list \<and>
   dict_get (annotations (data example_allow_list)) ''koji_task_annotations_whitelist'' =
     Some (PInt 2) \<and>
   dict_get (build_result_annotations (data example_allow_list)) ''koji_task_annotations_whitelist'' =
     Some (PInt 1) \<and>
   published_annotation example_allow_list ''koji_task_annotations_whitelist'' =
     Some (PStr (json_enc (PList [PStr ''a'']))) \<and>
   json_enc (PList [PStr ''a'']) \<noteq> json_enc (PInt 1)"
  by code_simp

section \<open>Values are strings\<close>

lemma full_build_fields_Inr:
  assumes "run_full_build_fields w = Inr fb"
  shows "dockerfile_contents fb =
           (case and_then (df_path w) (read_file w) of Inl e \<Rightarrow> [] | Inr contents \<Rightarrow> contents)"
    and "commit_id fb = (case source_commit_id w of Inl e \<Rightarrow> PStr [] | Inr commit \<Rightarrow> commit)"
    and "(base_image_name fb, base_image_id fb) =
           (if original_base_image (dockerfile_images (data w)) \<noteq> PNone \<and>
               \<not> base_from_scratch (dockerfile_images (data w))
            then (original_base_image (dockerfile_images (data w)),
                  case base_image_inspect w of
                    Inl e \<Rightarrow> PStr []
                  | Inr inspect \<Rightarrow> dict_get_or inspect ''Id'' (PStr []))
            else (PStr [], PStr []))"
  using assms
  by (auto simp: run_full_build_fields_def and_then_eq_Inr catch_def Let_def
      split: sum.splits if_splits)

lemma built_all_str:
  assumes "run_built_annotations w = Inr b" and "stored_values_are_strings w"
  shows "all_str b"
proof -
  from assms(1) obtain a0 a1 a2 a3 where
    a0: "run_initial_annotations w = Inr a0" and
    a1: "if source_build w then run_source_annotations w a0 = Inr a1
     else \<exists>fb. run_full_build_fields w = Inr fb \<and> run_full_annotations w fb a0 = Inr a1" and
    a2: "run_media_types w a1 = Inr a2" and
    a3: "run_tar_metadata w a2 = Inr a3" and
    b: "apply_remote_source_annotations w a3 = Inr b"
    by (rule run_built_Inr)
  from run_initial_Inr [OF a0] have s0: "all_str a0" by (auto simp: all_str_def)
  have s1: "all_str a1"
  proof (cases "source_build w")
    case True
    with a1 obtain v where v: "a1 = dict_set a0 ''image-id'' v"
      "v = PStr [] \<or> and_then (subscript (koji_source_manifest (data w)) ''config'')
          (\<lambda>config. subscript config ''digest'') = Inr v"
      by (auto dest: run_source_Inr)
    with True assms(2) have "is_str v" by (auto simp: stored_values_are_strings_def)
    with v(1) s0 show ?thesis by (simp add: all_str_set)
  next
    case False
    with a1 obtain fb where fb: "run_full_build_fields w = Inr fb"
      "run_full_annotations w fb a0 = Inr a1" by auto
    from full_build_fields_Inr(2,3) [OF fb(1)] False assms(2)
    have "is_str (commit_id fb)" "is_str (base_image_name fb)" "is_str (base_image_id fb)"
      by (auto simp: stored_values_are_strings_def split: sum.splits if_splits)
    moreover from False assms(2)
    have "is_str (if truthy (image_id (data w)) then image_id (data w) else PStr [])"
      by (simp add: stored_values_are_strings_def)
    ultimately show ?thesis unfolding run_full_Inr [OF fb(2)] using s0
      by (intro all_str_set) simp_all
  qed
  from run_media_types_Inr(1) [OF a2] s1 have s2: "all_str a2" by (auto simp: all_str_set)
  from run_tar_metadata_Inr [OF a3] s2 have s3: "all_str a3"
    by (auto simp: all_str_set split: if_splits)
  from remote_source_Inr [OF b] s3 show ?thesis by (auto simp: all_str_set)
qed

lemma update_labels_all_str:
  assumes "all_str l"
  shows "all_str (update_labels l u)"
proof -
  have "all_str (map (\<lambda>kv. (fst kv, PStr (py_str (snd kv)))) u)"
    by (simp add: all_str_def list_all_iff)
  with assms show ?thesis by (simp add: update_labels_def all_str_update)
qed

lemma make_labels_all_str: "all_str (make_labels w)"
proof -
  have "all_str (update_labels (update_labels [] (labels (data w))) (build_result_labels (data w)))"
    by (intro update_labels_all_str) (simp add: all_str_def)
  then show ?thesis
    by (auto simp: make_labels_def Let_def all_str_set split: option.splits)
qed

text \<open>
  C8, as amended. Every published label value is a string. Every published annotation
  value is a string when the values \<^verbatim>\<open>run\<close> stores without encoding them are strings: the
  values of the configuration map, the commit id, the base image and its inspected id, the
  image id and, for a source build, the config digest of the source manifest. The values
  merged in from the plugin annotations and the build-result annotations are encoded and
  so always strings.
\<close>

theorem published_values_are_strings:
  "(run_succeeds w \<and> stored_values_are_strings w \<longrightarrow> all_str (published_annotations w)) \<and>
   all_str (published_labels w) \<and> all_str (make_labels w)"
proof -
  have "all_str (published_annotations w)" if "run_succeeds w" "stored_values_are_strings w"
  proof -
    from that(1) obtain b where b: "run_built_annotations w = Inr b"
      "run_merged_annotations w b = Inr (published_annotations w)" by (rule published_built)
    from that(2) have "all_str (config_map_items w)" by (simp add: stored_values_are_strings_def)
    with run_merged_all_str [OF b(2) built_all_str [OF b(1) that(2)]] show ?thesis by simp
  qed
  moreover have "all_str (published_labels w)"
  proof (cases "run_succeeds w")
    case True
    then obtain calls r where "run w = (calls, Inr r)" "published_labels w = result_labels r"
      by (rule run_succeeds_Inr)
    with run_Inr [of w calls r] make_labels_all_str [of w] show ?thesis by simp
  next
    case False
    then show ?thesis
      by (auto simp: run_succeeds_def published_labels_def all_str_def split: sum.splits)
  qed
  ultimately show ?thesis using make_labels_all_str by blast
qed

text \<open>The example stores only strings; its one label, the number 12, is published as the
  string \<^verbatim>\<open>12\<close>.\<close>

theorem published_values_are_strings_witness:
  "run_succeeds example_workflow \<and> stored_values_are_strings example_workflow \<and>
   all_str (published_annotations example_workflow) \<and>
   all_str (published_labels example_workflow) \<and>
   published_labels example_workflow = [(''koji-task-id'', PStr ''12'')]"
proof -
  have s: "run_succeeds example_workflow" by code_simp
  have h: "stored_values_are_strings example_workflow" by code_simp
  have l: "published_labels example_workflow = [(''koji-task-id'', PStr ''12'')]" by code_simp
  from published_values_are_strings [of example_workflow] s h l show ?thesis by simp
qed

text \<open>
  C8 as the specification states it fails: a number in the configuration map is
  published as a number, since the configuration map is merged in without encoding.
\<close>

theorem config_map_value_counterexample:
  "run_succeeds example_config_map \<and>
   get_config_map example_config_map = PDict [(''k'', PInt 1)] \<and>
   published_annotation example_config_map ''k'' = Some (PInt 1) \<and>
   \<not> is_str (PInt 1) \<and>
   \<not> all_str (published_annotations example_config_map)"
  by code_simp

section \<open>The dockerfile and the commit id\<close>

lemma run_cong:
  assumes "data w' = data w" "user_params w' = user_params w"
    "conf_registry w' = conf_registry w" "conf_koji w' = conf_koji w"
    "get_usage_data w' = get_usage_data w" "get_manifest_digests w' = get_manifest_digests w"
    "osbs w' = osbs w" "run_full_build_fields w' = run_full_build_fields w"
  shows "run w' = run w"
proof -
  have loop: "get_digests_loop w' imgs d = get_digests_loop w imgs d" for imgs d
    by (induction imgs arbitrary: d) (simp_all add: assms)
  have initial: "run_initial_annotations w' = run_initial_annotations w"
    unfolding run_initial_annotations_def get_repositories_def get_digests_def get_pullspecs_def
      get_plugin_metadata_def get_filesystem_metadata_def loop assms by (rule refl)
  have source: "run_source_annotations w' = run_source_annotations w"
    unfolding run_source_annotations_def assms by (rule refl)
  have full: "run_full_annotations w' = run_full_annotations w"
    unfolding run_full_annotations_def assms by (rule refl)
  have media: "run_media_types w' = run_media_types w"
    unfolding run_media_types_def assms by (rule refl)
  have tar: "run_tar_metadata w' = run_tar_metadata w"
    unfolding run_tar_metadata_def assms by (rule refl)
  have remote: "apply_remote_source_annotations w' = apply_remote_source_annotations w"
    unfolding apply_remote_source_annotations_def get_pre_result_def assms by (rule refl)
  have built: "run_built_annotations w' = run_built_annotations w"
    unfolding run_built_annotations_def source_build_def initial source full media tar remote assms
    by (rule refl)
  have merged: "run_merged_annotations w' = run_merged_annotations w"
    unfolding run_merged_annotations_def get_config_map_def get_post_result_def
      apply_plugin_annotations_def apply_build_result_annotations_def
      set_koji_task_annotations_whitelist_def assms by (rule refl)
  have labels: "make_labels w' = make_labels w"
    unfolding make_labels_def assms by (rule refl)
  show ?thesis
    unfolding run_def run_annotations_def built merged labels assms by (rule refl)
qed

lemma run_df_path_unavailable:
  "run (w\<lparr>df_path := Inl AttributeError\<rparr>) =
   run (w\<lparr>df_path := Inr path, read_file := (\<lambda>p. Inr [])\<rparr>)"
  by (rule run_cong) (simp_all add: run_full_build_fields_def catch_def cong: if_cong)

lemma run_commit_id_unavailable:
  "run (w\<lparr>source_commit_id := Inl AttributeError\<rparr>) =
   run (w\<lparr>source_commit_id := Inr (PStr [])\<rparr>)"
  by (rule run_cong) (simp_all add: run_full_build_fields_def catch_def cong: if_cong)

lemma built_dockerfile:
  assumes "run_built_annotations w = Inr b" and "\<not> source_build w"
  shows "\<exists>fb. run_full_build_fields w = Inr fb \<and>
              dict_get b ''dockerfile'' = Some (PStr (dockerfile_contents fb)) \<and>
              dict_get b ''commit_id'' = Some (commit_id fb)"
proof -
  from assms(1) obtain a0 a1 a2 a3 where
    a1: "if source_build w then run_source_annotations w a0 = Inr a1
     else \<exists>fb. run_full_build_fields w = Inr fb \<and> run_full_annotations w fb a0 = Inr a1" and
    a2: "run_media_types w a1 = Inr a2" and
    a3: "run_tar_metadata w a2 = Inr a3" and
    b: "apply_remote_source_annotations w a3 = Inr b"
    by (rule run_built_Inr)
  from a1 assms(2) obtain fb where fb: "run_full_build_fields w = Inr fb"
    "run_full_annotations w fb a0 = Inr a1" by auto
  have "dict_get b k = dict_get a1 k" if "k = ''dockerfile'' \<or> k = ''commit_id''" for k
    using that remote_frame [OF b, of k] tar_frame [OF a3, of k] media_frame [OF a2, of k]
    by auto
  then have "dict_get b ''dockerfile'' = dict_get a1 ''dockerfile''"
    "dict_get b ''commit_id'' = dict_get a1 ''commit_id''" by simp_all
  with fb(1) show ?thesis unfolding run_full_Inr [OF fb(2)] by (simp add: dict_get_set)
qed

text \<open>
  C9, as amended. For a full build for which \<^verbatim>\<open>run\<close> returns: unless one of the merged
  sources has a \<^verbatim>\<open>dockerfile\<close> key of its own, the \<^verbatim>\<open>dockerfile\<close> annotation is the contents
  read from the dockerfile path when the path is available, and the empty string when
  the path is unavailable (reading it raises \<^verbatim>\<open>AttributeError\<close>); unless one of the merged
  sources has a \<^verbatim>\<open>commit_id\<close> key of its own, the \<^verbatim>\<open>commit_id\<close> annotation is the empty string
  when the commit id is unavailable. An unavailable path makes no difference to the
  outcome of \<^verbatim>\<open>run\<close> against an empty dockerfile, nor an unavailable commit id against an
  empty commit id: neither makes the publish fail.
\<close>

theorem dockerfile_and_commit_id:
  "(run_succeeds w \<and> \<not> source_build w \<and> \<not> merged_key w ''dockerfile'' \<longrightarrow>
      published_annotation w ''dockerfile'' =
        Some (PStr (case df_path w of
                      Inl e \<Rightarrow> []
                    | Inr path \<Rightarrow> (case read_file w path of Inl e \<Rightarrow> [] | Inr contents \<Rightarrow> contents)))) \<and>
   (run_succeeds w \<and> \<not> source_build w \<and> \<not> merged_key w ''commit_id'' \<and>
    source_commit_id w = Inl AttributeError \<longrightarrow>
      published_annotation w ''commit_id'' = Some (PStr [])) \<and>
   run (w\<lparr>df_path := Inl AttributeError\<rparr>) =
     run (w\<lparr>df_path := Inr any_path, read_file := (\<lambda>p. Inr [])\<rparr>) \<and>
   run (w\<lparr>source_commit_id := Inl AttributeError\<rparr>) =
     run (w\<lparr>source_commit_id := Inr (PStr [])\<rparr>)"
proof -
  have df: "published_annotation w ''dockerfile'' =
        Some (PStr (case df_path w of
                      Inl e \<Rightarrow> []
                    | Inr path \<Rightarrow> (case read_file w path of Inl e \<Rightarrow> [] | Inr contents \<Rightarrow> contents)))"
    if "run_succeeds w" "\<not> source_build w" "\<not> merged_key w ''dockerfile''"
  proof -
    from that(1,3) obtain b where b: "run_built_annotations w = Inr b"
      "published_annotation w ''dockerfile'' = dict_get b ''dockerfile''"
      by (rule published_unmerged) simp
    from built_dockerfile [OF b(1) that(2)] obtain fb where
      fb: "run_full_build_fields w = Inr fb"
        "dict_get b ''dockerfile'' = Some (PStr (dockerfile_contents fb))" by blast
    from full_build_fields_Inr(1) [OF fb(1)] fb(2) b(2) show ?thesis
      by (auto simp: and_then_def split: sum.splits)
  qed
  have ci: "published_annotation w ''commit_id'' = Some (PStr [])"
    if "run_succeeds w" "\<not> source_build w" "\<not> merged_key w ''commit_id''"
      "source_commit_id w = Inl AttributeError"
  proof -
    from that(1,3) obtain b where b: "run_built_annotations w = Inr b"
      "published_annotation w ''commit_id'' = dict_get b ''commit_id''"
      by (rule published_unmerged) simp
    from built_dockerfile [OF b(1) that(2)] obtain fb where
      fb: "run_full_build_fields w = Inr fb" "dict_get b ''commit_id'' = Some (commit_id fb)"
      by blast
    from full_build_fields_Inr(2) [OF fb(1)] fb(2) b(2) that(4) show ?thesis by simp
  qed
  from df ci run_df_path_unavailable [of w any_path] run_commit_id_unavailable [of w]
  show ?thesis by blast
qed

text \<open>The example publishes the contents of its dockerfile; without a dockerfile path and
  a commit id it still returns, with both annotations empty.\<close>

theorem dockerfile_and_commit_id_witness:
  "run_succeeds example_workflow \<and>
   published_annotation example_workflow ''dockerfile'' = Some (PStr ''FROM fedora:36'') \<and>
   run_succeeds (example_workflow\<lparr>df_path := Inl AttributeError,
     source_commit_id := Inl AttributeError\<rparr>) \<and>
   published_annotation (example_workflow\<lparr>df_path := Inl AttributeError,
     source_commit_id := Inl AttributeError\<rparr>) ''dockerfile'' = Some (PStr []) \<and>
   published_annotation (example_workflow\<lparr>df_path := Inl AttributeError,
     source_commit_id := Inl AttributeError\<rparr>) ''commit_id'' = Some (PStr [])"
proof -
  let ?w = "example_workflow\<lparr>df_path := Inl AttributeError, source_commit_id := Inl AttributeError\<rparr>"
  have s: "run_succeeds example_workflow" "\<not> source_build example_workflow"
    "\<not> merged_key example_workflow ''dockerfile''" by code_simp+
  have f: "df_path example_workflow = Inr ''/src/Dockerfile''"
    "read_file example_workflow ''/src/Dockerfile'' = Inr ''FROM fedora:36''"
    by (simp_all add: example_workflow_def)
  have s': "run_succeeds ?w" "\<not> source_build ?w" "\<not> merged_key ?w ''dockerfile''"
    "\<not> merged_key ?w ''commit_id''" by code_simp+
  have f': "df_path ?w = Inl AttributeError" "source_commit_id ?w = Inl AttributeError"
    by simp_all
  from dockerfile_and_commit_id [of example_workflow] s f
  have "published_annotation example_workflow ''dockerfile'' = Some (PStr ''FROM fedora:36'')"
    by simp
  moreover from dockerfile_and_commit_id [of ?w] s' f'
  have "published_annotation ?w ''dockerfile'' = Some (PStr [])"
    "published_annotation ?w ''commit_id'' = Some (PStr [])" by simp_all
  ultimately show ?thesis using s(1) s'(1) by simp
qed

text \<open>
  C9 as the specification states it fails: in a full build whose dockerfile is
  available, a plugin annotation named \<^verbatim>\<open>dockerfile\<close> replaces the contents of the file.
\<close>

theorem dockerfile_merged_counterexample:
  "run_succeeds example_dockerfile_annotation \<and> \<not> source_build example_dockerfile_annotation \<and>
   df_path example_dockerfile_annotation = Inr ''/src/Dockerfile'' \<and>
   read_file example_dockerfile_annotation ''/src/Dockerfile'' = Inr ''FROM fedora:36'' \<and>
   published_annotation example_dockerfile_annotation ''dockerfile'' =
     Some (PStr (json_enc (PStr ''y''))) \<and>
   json_enc (PStr ''y'') \<noteq> ''FROM fedora:36''"
  by code_simp

section \<open>The two remote calls\<close>

text \<open>
  X1. When the labels \<^verbatim>\<open>make_labels\<close> builds are empty, \<^verbatim>\<open>run\<close> makes no call to update the
  labels: it makes at most the one call that updates the annotations.
\<close>

theorem no_labels_no_call:
  "make_labels w = [] \<Longrightarrow>
   length (fst (run w)) \<le> 1 \<and> (\<forall>name l. UpdateLabels name l \<notin> set (fst (run w)))"
  by (auto simp: run_def Let_def split: sum.splits option.splits)

theorem no_labels_no_call_witness:
  "make_labels example_no_labels = [] \<and> run_succeeds example_no_labels \<and>
   published_labels example_no_labels = [] \<and> length (fst (run example_no_labels)) = 1"
proof -
  have l: "make_labels example_no_labels = []" by code_simp
  have s: "run_succeeds example_no_labels" "published_labels example_no_labels = []" by code_simp+
  have "fst (run example_no_labels) \<noteq> []" by code_simp
  with no_labels_no_call [OF l] have "length (fst (run example_no_labels)) = 1"
    by (cases "fst (run example_no_labels)") auto
  with l s show ?thesis by simp
qed

text \<open>
  X2. When the remote update of the annotations raises, \<^verbatim>\<open>run\<close> raises the same exception
  and the update of the annotations is the only remote call it has made: the labels are
  never sent.
\<close>

theorem annotations_failure_is_fatal:
  "dict_get (user_params w) ''pipeline_run_name'' = Some name \<Longrightarrow>
   run_annotations w = Inr a \<Longrightarrow>
   update_annotations_on_build (osbs w) name a = Some e \<Longrightarrow>
   run w = ([UpdateAnnotations name a], Inl e)"
  by (simp add: run_def dict_index_def)

theorem annotations_failure_is_fatal_witness:
  "snd (run example_remote_failure) = Inl OsbsResponseException \<and>
   length (fst (run example_remote_failure)) = 1"
proof -
  let ?a = "case run_annotations example_remote_failure of Inl e \<Rightarrow> [] | Inr a \<Rightarrow> a"
  have n: "dict_get (user_params example_remote_failure) ''pipeline_run_name'' = Some (PStr ''run-1'')"
    by code_simp
  have a: "run_annotations example_remote_failure = Inr ?a" by code_simp
  have f: "update_annotations_on_build (osbs example_remote_failure) (PStr ''run-1'') ?a =
           Some OsbsResponseException" by (simp add: example_remote_failure_def)
  from annotations_failure_is_fatal [OF n a f] show ?thesis by simp
qed

end
